theory Spec2Isabelle
  imports Complex_Main
begin

section \<open>Data model\<close>

text \<open>
  The character record of \<^verbatim>\<open>characters.ts\<close>, with the fields the rules engine reads at
  run time although the interface does not declare them (\<^verbatim>\<open>multiclass\<close>,
  \<^verbatim>\<open>archetypeFeatures\<close>, \<^verbatim>\<open>alignment\<close>, \<^verbatim>\<open>skills\<close>) and the stamp the exporter
  adds (\<^verbatim>\<open>exportedAt\<close>). A field that may be absent is an \<open>option\<close>; the id is one of
  them, because the exporter removes it. Object-literal tables are association lists over
  their own keys. Indexing such a table with a name it does not hold still finds the
  members every object inherits from \<^verbatim>\<open>Object.prototype\<close>; the hit-die table and the
  spell-learning table are read through \<open>getProperty\<close> below, which tells the three cases
  apart. In the validation tables an inherited member has no entries and no bounds of its
  own and acts as a missing entry.
\<close>

text \<open>
  Modelled from the spec: the types \<^verbatim>\<open>AbilityScores\<close>, \<^verbatim>\<open>CharacterSpell\<close> (\<^verbatim>\<open>Spell\<close>),
  \<^verbatim>\<open>CharacterItem\<close>, \<^verbatim>\<open>CharacterClass\<close> and \<^verbatim>\<open>CharacterRace\<close>, which the character
  interface uses and no source file declares. The ability scores are the six named
  integers, a spell has a name, a level, a school and the prepared flag, an item has an id,
  a name and a weight. Class and race names are strings, as they are at run time, and
  numbers are whole numbers (\<open>int\<close>).
\<close>

datatype CharacterStatus = Active | Inactive | Deceased | Retired

record AbilityScores =
  strength :: int
  dexterity :: int
  constitution :: int
  intelligence :: int
  wisdom :: int
  charisma :: int

record Spell =
  spellName :: string
  spellLevel :: int
  school :: string
  prepared :: "bool option"

record InventoryItem =
  itemId :: string
  itemName :: string
  weight :: "int option"

record MulticlassEntry =
  mcClass :: string
  mcLevel :: int

record Alignment =
  moral :: string
  ethical :: string

record Traits =
  personality :: "string list"
  ideals :: "string list"
  bonds :: "string list"
  flaws :: "string list"

record Character =
  charId :: "string option"
  name :: string
  race :: string
  charClass :: string
  level :: int
  experience :: int
  status :: "CharacterStatus option"
  abilityScores :: AbilityScores
  hitPoints :: int
  armorClass :: int
  campaignId :: "string option"
  inventory :: "InventoryItem list option"
  spells :: "Spell list option"
  backstory :: "string option"
  traits :: "Traits option"
  multiclass :: "MulticlassEntry list option"
  archetypeFeatures :: "string list option"
  alignment :: "Alignment option"
  skills :: "(string \<times> int) list option"
  exportedAt :: "int option"

text \<open>What a throwing operation throws.\<close>

datatype error = TypeError string | Error string

section \<open>JavaScript library functions\<close>

text \<open>\<^verbatim>\<open>xs || []\<close> on an optional array.\<close>

definition orEmpty :: "'a list option \<Rightarrow> 'a list" where
  "orEmpty xs = (case xs of None \<Rightarrow> [] | Some ys \<Rightarrow> ys)"

text \<open>
  \<^verbatim>\<open>Array.prototype.slice(0, end)\<close>: the end is truncated towards zero, a negative end
  counts from the back, and the result is clipped to the array.
\<close>

definition toIntegerOrInfinity :: "rat \<Rightarrow> int" where
  "toIntegerOrInfinity q = (if q < 0 then \<lceil>q\<rceil> else \<lfloor>q\<rfloor>)"

definition sliceFromStart :: "'a list \<Rightarrow> rat \<Rightarrow> 'a list" where
  "sliceFromStart xs e =
     (let len = int (length xs);
          rel = toIntegerOrInfinity e;
          final = (if rel < 0 then max (len + rel) 0 else min rel len)
      in take (nat final) xs)"

text \<open>
  \<^verbatim>\<open>table[key]\<close> on an object literal: the value of an own key, else a member inherited
  from \<^verbatim>\<open>Object.prototype\<close> (a function, or the prototype object for \<^verbatim>\<open>__proto__\<close>;
  truthy and not a number), else undefined.
\<close>

definition objectPrototypeMembers :: "string list" where
  "objectPrototypeMembers =
     [''constructor'', ''hasOwnProperty'', ''isPrototypeOf'', ''propertyIsEnumerable'',
      ''toLocaleString'', ''toString'', ''valueOf'', ''__proto__'', ''__defineGetter__'',
      ''__defineSetter__'', ''__lookupGetter__'', ''__lookupSetter__'']"

datatype 'a property = Own 'a | Inherited | Undefined

definition getProperty :: "(string \<times> 'a) list \<Rightarrow> string \<Rightarrow> 'a property" where
  "getProperty table key =
     (case map_of table key of
        Some v \<Rightarrow> Own v
      | None \<Rightarrow> if key \<in> set objectPrototypeMembers then Inherited else Undefined)"

text \<open>A number, or NaN.\<close>

datatype jsnumber = Finite int | NaN

section \<open>MulticlassSystem\<close>

definition hitDiceByClass :: "(string \<times> int) list" where
  "hitDiceByClass =
     [(''Barbarian'', 12), (''Fighter'', 10), (''Paladin'', 10), (''Ranger'', 10),
      (''Wizard'', 6), (''Rogue'', 8), (''Cleric'', 8), (''Druid'', 8)]"

text \<open>
  \<^verbatim>\<open>hitDiceByClass[newClass] || 8\<close>: a missing entry and a zero entry both give 8. An
  inherited member is truthy, so it is kept, and the arithmetic on it gives NaN.
\<close>

definition baseHitDice :: "string \<Rightarrow> jsnumber" where
  "baseHitDice newClass =
     (case getProperty hitDiceByClass newClass of
        Undefined \<Rightarrow> Finite 8
      | Own d \<Rightarrow> if d = 0 then Finite 8 else Finite d
      | Inherited \<Rightarrow> NaN)"

definition calculateMulticlassHitPoints :: "Character \<Rightarrow> string \<Rightarrow> jsnumber" where
  "calculateMulticlassHitPoints character newClass =
     (let constitutionModifier = (constitution (abilityScores character) - 10) div 2
      in case baseHitDice newClass of
           NaN \<Rightarrow> NaN
         | Finite d \<Rightarrow> Finite (max 1 (d div 2 + constitutionModifier)))"

section \<open>SpellSystem\<close>

record SpellLearningRule =
  maxSpellsPerLevel :: int
  spellLearningLevels :: "int list"
  spellListByLevel :: "(int \<times> Spell list) list"

definition mkSpell :: "string \<Rightarrow> int \<Rightarrow> string \<Rightarrow> Spell" where
  "mkSpell n l s = \<lparr>spellName = n, spellLevel = l, school = s, prepared = None\<rparr>"

definition spellLearningRules :: "(string \<times> SpellLearningRule) list" where
  "spellLearningRules =
     [(''Wizard'',
       \<lparr>maxSpellsPerLevel = 6,
        spellLearningLevels = [1, 2, 4, 8, 12, 16, 19],
        spellListByLevel =
          [(1, [mkSpell ''Magic Missile'' 1 ''Evocation'',
                mkSpell ''Shield'' 1 ''Abjuration'',
                mkSpell ''Mage Armor'' 1 ''Abjuration'']),
           (2, [mkSpell ''Misty Step'' 2 ''Conjuration'',
                mkSpell ''Scorching Ray'' 2 ''Evocation''])]\<rparr>),
      (''Cleric'',
       \<lparr>maxSpellsPerLevel = 5,
        spellLearningLevels = [1, 3, 5, 7, 9, 11, 13, 15, 17, 19],
        spellListByLevel =
          [(1, [mkSpell ''Cure Wounds'' 1 ''Healing'',
                mkSpell ''Bless'' 1 ''Support'']),
           (2, [mkSpell ''Spiritual Weapon'' 2 ''Evocation''])]\<rparr>)]"

text \<open>
  An inherited member passes the test \<^verbatim>\<open>!classRules\<close>; it has no
  \<^verbatim>\<open>spellLearningLevels\<close>, and calling \<^verbatim>\<open>includes\<close> on undefined throws.
\<close>

definition getNewSpellsForLevel :: "Character \<Rightarrow> error + Spell list" where
  "getNewSpellsForLevel character =
     (case getProperty spellLearningRules (charClass character) of
        Undefined \<Rightarrow> Inr []
      | Inherited \<Rightarrow>
          Inl (TypeError
                 (''Cannot read properties of undefined (reading '' @ [CHR 0x27]
                  @ ''includes'' @ [CHR 0x27] @ '')''))
      | Own classRules \<Rightarrow>
          if level character \<notin> set (spellLearningLevels classRules) then Inr []
          else
            let availableSpellLevel = level character div 2;
                newSpells = orEmpty (map_of (spellListByLevel classRules) availableSpellLevel)
            in Inr (sliceFromStart newSpells (of_int (maxSpellsPerLevel classRules))))"

text \<open>
  \<^verbatim>\<open>prepareDailySpells\<close> divides the level by two without rounding; the fraction reaches
  \<^verbatim>\<open>slice\<close>, which truncates it. \<^verbatim>\<open>slice\<close> and \<^verbatim>\<open>map\<close> build new arrays and the
  spread builds new spell objects; nothing is assigned to the character. The model returns
  the prepared list together with the character as the call leaves it.
\<close>

definition prepareDailySpells :: "Character \<Rightarrow> Spell list \<times> Character" where
  "prepareDailySpells character =
     (let wisdomModifier = (wisdom (abilityScores character) - 10) div 2;
          preparableSpells = max 1 (of_int (level character) / 2 + of_int wisdomModifier)
      in (map (\<lambda>spell. spell\<lparr>prepared := Some True\<rparr>)
            (sliceFromStart (orEmpty (spells character)) preparableSpells),
          character))"

section \<open>Strings\<close>

text \<open>
  Strings are lists of characters and the helpers below cover ASCII: \<^verbatim>\<open>toUpperCase\<close> and
  \<^verbatim>\<open>toLowerCase\<close> on the letters a to z, \<^verbatim>\<open>trim\<close> on the ASCII white space, the decimal
  text of an integer as a template literal prints it.
\<close>

definition lowerLetters :: string where
  "lowerLetters = ''abcdefghijklmnopqrstuvwxyz''"

definition upperLetters :: string where
  "upperLetters = ''ABCDEFGHIJKLMNOPQRSTUVWXYZ''"

definition toUpperChar :: "char \<Rightarrow> char" where
  "toUpperChar c = (case map_of (zip lowerLetters upperLetters) c of None \<Rightarrow> c | Some u \<Rightarrow> u)"

definition toLowerChar :: "char \<Rightarrow> char" where
  "toLowerChar c = (case map_of (zip upperLetters lowerLetters) c of None \<Rightarrow> c | Some l \<Rightarrow> l)"

definition toLowerCase :: "string \<Rightarrow> string" where
  "toLowerCase s = map toLowerChar s"

text \<open>\<^verbatim>\<open>s.charAt(0).toUpperCase() + s.slice(1)\<close>\<close>

definition capitalize :: "string \<Rightarrow> string" where
  "capitalize s = (case s of [] \<Rightarrow> [] | c # cs \<Rightarrow> toUpperChar c # cs)"

definition isSpace :: "char \<Rightarrow> bool" where
  "isSpace c = (c \<in> set [CHR '' '', CHR 0x09, CHR 0x0A, CHR 0x0B, CHR 0x0C, CHR 0x0D])"

definition trim :: "string \<Rightarrow> string" where
  "trim s = rev (dropWhile isSpace (rev (dropWhile isSpace s)))"

fun join :: "string \<Rightarrow> string list \<Rightarrow> string" where
  "join sep [] = []"
| "join sep [x] = x"
| "join sep (x # y # ys) = x @ sep @ join sep (y # ys)"

text \<open>\<^verbatim>\<open>s.replace(pat, '')\<close> with a string pattern: the first occurrence is removed.\<close>

fun removeFirst :: "string \<Rightarrow> string \<Rightarrow> string" where
  "removeFirst pat [] = []"
| "removeFirst pat (c # cs) =
     (if take (length pat) (c # cs) = pat then drop (length pat) (c # cs)
      else c # removeFirst pat cs)"

definition digitChar :: "nat \<Rightarrow> char" where
  "digitChar d = ''0123456789'' ! d"

fun showNat :: "nat \<Rightarrow> string" where
  "showNat n = (if n < 10 then [digitChar n] else showNat (n div 10) @ [digitChar (n mod 10)])"

declare showNat.simps [simp del]

definition showInt :: "int \<Rightarrow> string" where
  "showInt i = (if i < 0 then CHR ''-'' # showNat (nat (- i)) else showNat (nat i))"

section \<open>CharacterValidationSystem\<close>

record ValidationResult =
  isValid :: bool
  errors :: "string list"
  warnings :: "string list"

text \<open>
  The validation calls the archetype module and reads the alignment definitions; both lie
  outside the rules engine and are parameters here: the archetype check as a function that
  returns a validation result, the alignment definitions as the entries of the object.
\<close>

record Collaborators =
  validateArchetypeSelection :: "Character \<Rightarrow> string option \<Rightarrow> ValidationResult"
  alignmentDefinitions :: "(string \<times> Alignment) list"

definition pushError :: "ValidationResult \<Rightarrow> string \<Rightarrow> ValidationResult" where
  "pushError result msg = result\<lparr>errors := errors result @ [msg]\<rparr>"

definition pushErrors :: "ValidationResult \<Rightarrow> string list \<Rightarrow> ValidationResult" where
  "pushErrors result msgs = result\<lparr>errors := errors result @ msgs\<rparr>"

definition pushWarning :: "ValidationResult \<Rightarrow> string \<Rightarrow> ValidationResult" where
  "pushWarning result msg = result\<lparr>warnings := warnings result @ [msg]\<rparr>"

text \<open>\<^verbatim>\<open>if (cond) result.errors.push(msg)\<close> and the same for a warning.\<close>

definition errorIf :: "bool \<Rightarrow> string \<Rightarrow> ValidationResult \<Rightarrow> ValidationResult" where
  "errorIf cond msg result = (if cond then pushError result msg else result)"

definition warningIf :: "bool \<Rightarrow> string \<Rightarrow> ValidationResult \<Rightarrow> ValidationResult" where
  "warningIf cond msg result = (if cond then pushWarning result msg else result)"

definition validRaces :: "string list" where
  "validRaces = [''Human'', ''Elf'', ''Dwarf'', ''Halfling'', ''Gnome'']"

definition validClasses :: "string list" where
  "validClasses =
     [''Fighter'', ''Wizard'', ''Rogue'', ''Cleric'', ''Barbarian'', ''Ranger'', ''Paladin'',
      ''Druid'', ''Monk'', ''Warlock'']"

definition validateBasicInfo :: "Character \<Rightarrow> ValidationResult \<Rightarrow> ValidationResult" where
  "validateBasicInfo character result =
     (let r1 = errorIf (name character = [] \<or> length (trim (name character)) < 2)
                 ''Character name must be at least 2 characters long'' result;
          r2 = warningIf (name character \<noteq> [] \<and> length (name character) > 50)
                 ''Character name is unusually long'' r1;
          r3 = errorIf (race character \<notin> set validRaces)
                 (''Invalid race. Must be one of: '' @ join '', '' validRaces) r2;
          r4 = errorIf (charClass character \<notin> set validClasses)
                 (''Invalid class. Must be one of: '' @ join '', '' validClasses) r3;
          r5 = errorIf (level character < 1) ''Character level must be at least 1'' r4;
          r6 = errorIf (level character > 20) ''Character level cannot exceed 20'' r5
      in warningIf (level character > 10) ''High-level character detected'' r6)"

text \<open>\<^verbatim>\<open>Object.entries(character.abilityScores)\<close>, the six abilities in their usual order.\<close>

definition abilityEntries :: "AbilityScores \<Rightarrow> (string \<times> int) list" where
  "abilityEntries a =
     [(''strength'', strength a), (''dexterity'', dexterity a),
      (''constitution'', constitution a), (''intelligence'', intelligence a),
      (''wisdom'', wisdom a), (''charisma'', charisma a)]"

text \<open>The text of the range error for an ability.\<close>

definition rangeMessage :: "string \<Rightarrow> int \<Rightarrow> int \<Rightarrow> string" where
  "rangeMessage ability minScore maxScore =
     capitalize ability @ '' score must be between '' @ showInt minScore
     @ '' and '' @ showInt maxScore"

text \<open>The six ability names and their range errors, for the statements below.\<close>

definition abilityNames :: "string list" where
  "abilityNames =
     [''strength'', ''dexterity'', ''constitution'', ''intelligence'', ''wisdom'',
      ''charisma'']"

definition rangeMessages :: "string list" where
  "rangeMessages = map (\<lambda>ability. rangeMessage ability 3 20) abilityNames"

definition checkAbilityRange :: "ValidationResult \<Rightarrow> string \<times> int \<Rightarrow> ValidationResult" where
  "checkAbilityRange result entry =
     (let minScore = 3; maxScore = 20; ability = fst entry; score = snd entry
      in errorIf (score < minScore \<or> score > maxScore)
           (rangeMessage ability minScore maxScore) result)"

record RaceRestriction =
  minTotalScore :: "int option"
  maxTotalScore :: "int option"
  balancedScores :: "bool option"
  minDexterity :: "int option"
  maxIntelligence :: "int option"
  minConstitution :: "int option"
  maxStrength :: "int option"

definition noRestriction :: RaceRestriction where
  "noRestriction =
     \<lparr>minTotalScore = None, maxTotalScore = None, balancedScores = None, minDexterity = None,
      maxIntelligence = None, minConstitution = None, maxStrength = None\<rparr>"

definition racialAbilityRestrictions :: "(string \<times> RaceRestriction) list" where
  "racialAbilityRestrictions =
     [(''Human'', noRestriction\<lparr>minTotalScore := Some 60, maxTotalScore := Some 80,
                                balancedScores := Some True\<rparr>),
      (''Elf'', noRestriction\<lparr>minDexterity := Some 12, maxIntelligence := Some 18\<rparr>),
      (''Dwarf'', noRestriction\<lparr>minConstitution := Some 12, maxStrength := Some 18\<rparr>)]"

text \<open>\<^verbatim>\<open>bound && p(bound)\<close>: an absent bound and a bound of zero are both falsy.\<close>

definition definedAnd :: "int option \<Rightarrow> (int \<Rightarrow> bool) \<Rightarrow> bool" where
  "definedAnd bound p = (case bound of None \<Rightarrow> False | Some b \<Rightarrow> b \<noteq> 0 \<and> p b)"

definition validateAbilityScores :: "Character \<Rightarrow> ValidationResult \<Rightarrow> ValidationResult" where
  "validateAbilityScores character result =
     (let r1 = foldl checkAbilityRange result (abilityEntries (abilityScores character))
      in case map_of racialAbilityRestrictions (race character) of
           None \<Rightarrow> r1
         | Some raceRestrictions \<Rightarrow>
             let totalScore = sum_list (map snd (abilityEntries (abilityScores character)));
                 r2 = warningIf
                        (definedAnd (minTotalScore raceRestrictions) (\<lambda>b. totalScore < b))
                        (''Total ability scores are low for '' @ race character) r1;
                 r3 = warningIf
                        (definedAnd (maxTotalScore raceRestrictions) (\<lambda>b. totalScore > b))
                        (''Total ability scores are high for '' @ race character) r2
             in (case minDexterity raceRestrictions of
                   None \<Rightarrow> r3
                 | Some b \<Rightarrow>
                     errorIf (b \<noteq> 0 \<and> dexterity (abilityScores character) < b)
                       (''Dexterity must be at least '' @ showInt b @ '' for ''
                        @ race character) r3))"

definition classRequirements :: "(string \<times> (string \<times> int) list) list" where
  "classRequirements =
     [(''Fighter'', [(''minStrength'', 13), (''minConstitution'', 12)]),
      (''Wizard'', [(''minIntelligence'', 14), (''minDexterity'', 10)]),
      (''Rogue'', [(''minDexterity'', 13), (''minIntelligence'', 10)]),
      (''Cleric'', [(''minWisdom'', 13), (''minConstitution'', 10)])]"

text \<open>A comparison with the score of an ability the character does not have is false.\<close>

definition checkRequirement ::
  "Character \<Rightarrow> ValidationResult \<Rightarrow> string \<times> int \<Rightarrow> ValidationResult" where
  "checkRequirement character result entry =
     (let ability = fst entry; minScore = snd entry;
          abilityName = toLowerCase (removeFirst ''min'' ability)
      in case map_of (abilityEntries (abilityScores character)) abilityName of
           None \<Rightarrow> result
         | Some score \<Rightarrow>
             errorIf (score < minScore)
               (capitalize abilityName @ '' must be at least '' @ showInt minScore
                @ '' for '' @ charClass character) result)"

definition validateClassRequirements ::
  "Character \<Rightarrow> ValidationResult \<Rightarrow> ValidationResult" where
  "validateClassRequirements character result =
     (case map_of classRequirements (charClass character) of
        None \<Rightarrow> result
      | Some requirements \<Rightarrow> foldl (checkRequirement character) result requirements)"

text \<open>
  The multiclass check calls \<^verbatim>\<open>MulticlassSystem.validateMulticlassing\<close>. The class
  \<^verbatim>\<open>MulticlassSystem\<close> declares \<^verbatim>\<open>multiclassPrerequisites\<close>, \<^verbatim>\<open>canMulticlass\<close>,
  \<^verbatim>\<open>calculateMulticlassHitPoints\<close>, \<^verbatim>\<open>performMulticlass\<close>, \<^verbatim>\<open>updateMulticlassSpells\<close>
  and \<^verbatim>\<open>getInitialClassSpells\<close>, and no member of that name: the property is undefined
  and calling it throws a TypeError.
\<close>

definition MulticlassSystem_validateMulticlassing ::
  "Character \<Rightarrow> string \<Rightarrow> error + ValidationResult" where
  "MulticlassSystem_validateMulticlassing character targetClass =
     Inl (TypeError ''MulticlassSystem.validateMulticlassing is not a function'')"

fun forEachMulticlass ::
  "Character \<Rightarrow> MulticlassEntry list \<Rightarrow> ValidationResult \<Rightarrow> error + ValidationResult" where
  "forEachMulticlass character [] result = Inr result"
| "forEachMulticlass character (mc # rest) result =
     (case MulticlassSystem_validateMulticlassing character (mcClass mc) of
        Inl e \<Rightarrow> Inl e
      | Inr multiclassValidation \<Rightarrow>
          forEachMulticlass character rest
            (if \<not> isValid multiclassValidation
             then pushErrors result (errors multiclassValidation) else result))"

text \<open>The total-level check at the end of the multiclass check.\<close>

definition totalLevelCheck :: "int \<Rightarrow> ValidationResult \<Rightarrow> ValidationResult" where
  "totalLevelCheck totalLevel result =
     (let r1 = errorIf (totalLevel > 20) ''Total character levels cannot exceed 20'' result
      in warningIf (totalLevel > 15) ''High total character levels detected'' r1)"

definition validateMulticlassing ::
  "Character \<Rightarrow> ValidationResult \<Rightarrow> error + ValidationResult" where
  "validateMulticlassing character result =
     (case multiclass character of
        None \<Rightarrow> Inr result
      | Some mcs \<Rightarrow>
          if length mcs > 0
          then (case forEachMulticlass character mcs result of
                  Inl e \<Rightarrow> Inl e
                | Inr r1 \<Rightarrow>
                    Inr (totalLevelCheck (sum_list (map mcLevel mcs) + level character) r1))
          else Inr result)"

text \<open>An empty feature list is truthy and its first element is undefined.\<close>

definition validateArchetype ::
  "Collaborators \<Rightarrow> Character \<Rightarrow> ValidationResult \<Rightarrow> ValidationResult" where
  "validateArchetype env character result =
     (case archetypeFeatures character of
        None \<Rightarrow> pushWarning result (''No archetype selected for '' @ charClass character)
      | Some features \<Rightarrow>
          let archetypeValidation =
                validateArchetypeSelection env character
                  (case features of [] \<Rightarrow> None | f # _ \<Rightarrow> Some f)
          in if \<not> isValid archetypeValidation
             then pushErrors result (errors archetypeValidation) else result)"

definition validAlignments :: "string list" where
  "validAlignments =
     [''Lawful Good'', ''Neutral Good'', ''Chaotic Good'',
      ''Lawful Neutral'', ''True Neutral'', ''Chaotic Neutral'',
      ''Lawful Evil'', ''Neutral Evil'', ''Chaotic Evil'']"

definition validateAlignment ::
  "Collaborators \<Rightarrow> Character \<Rightarrow> ValidationResult \<Rightarrow> ValidationResult" where
  "validateAlignment env character result =
     (case alignment character of
        None \<Rightarrow> pushWarning result ''No alignment specified''
      | Some a \<Rightarrow>
          let alignmentName =
                map_option fst
                  (find (\<lambda>entry. moral (snd entry) = moral a \<and> ethical (snd entry) = ethical a)
                     (alignmentDefinitions env))
          in errorIf
               (case alignmentName of
                  None \<Rightarrow> True
                | Some n \<Rightarrow> n = [] \<or> n \<notin> set validAlignments)
               ''Invalid character alignment'' result)"

definition checkSkill :: "ValidationResult \<Rightarrow> string \<times> int \<Rightarrow> ValidationResult" where
  "checkSkill result entry =
     (let skill = fst entry; lvl = snd entry
      in errorIf (lvl < 0 \<or> lvl > 20)
           (''Skill '' @ skill @ '' level must be between 0 and 20'') result)"

text \<open>
  The two 80 percent thresholds multiply by the double 0.8. Between whole numbers the
  comparison with that product is the comparison with the exact four fifths, which is what
  the rational arithmetic here computes.
\<close>

definition validateSkills :: "Character \<Rightarrow> ValidationResult \<Rightarrow> ValidationResult" where
  "validateSkills character result =
     (case skills character of
        None \<Rightarrow> result
      | Some sk \<Rightarrow>
          let r1 = foldl checkSkill result sk;
              maxSkillPoints = level character * 2;
              totalSkillPoints = sum_list (map snd sk);
              r2 = errorIf (totalSkillPoints > maxSkillPoints)
                     (''Total skill points ('' @ showInt totalSkillPoints
                      @ '') cannot exceed '' @ showInt maxSkillPoints) r1
          in warningIf ((of_int totalSkillPoints :: rat) > of_int maxSkillPoints * (8 / 10))
               ''Skill points are near maximum allocation'' r2)"

text \<open>The set of item ids seen so far is the list \<open>seen\<close>.\<close>

fun checkDuplicates ::
  "string list \<Rightarrow> InventoryItem list \<Rightarrow> ValidationResult \<Rightarrow> ValidationResult" where
  "checkDuplicates seen [] result = result"
| "checkDuplicates seen (item # items) result =
     checkDuplicates (itemId item # seen) items
       (errorIf (itemId item \<in> set seen) (''Duplicate item found: '' @ itemName item)
          result)"

definition validateInventory :: "Character \<Rightarrow> ValidationResult \<Rightarrow> ValidationResult" where
  "validateInventory character result =
     (case inventory character of
        None \<Rightarrow> result
      | Some items \<Rightarrow>
          let maxCarryWeight = 15 * strength (abilityScores character);
              totalWeight =
                sum_list (map (\<lambda>item. case weight item of None \<Rightarrow> 0 | Some w \<Rightarrow> w) items);
              r1 = errorIf (totalWeight > maxCarryWeight)
                     (''Inventory weight ('' @ showInt totalWeight
                      @ '') exceeds carrying capacity of '' @ showInt maxCarryWeight) result;
              r2 = warningIf ((of_int totalWeight :: rat) > of_int maxCarryWeight * (8 / 10))
                     ''Inventory is near maximum carrying capacity'' r1
          in checkDuplicates [] items r2)"

definition traitEntries :: "Traits option \<Rightarrow> (string \<times> string list) list" where
  "traitEntries ts =
     (case ts of
        None \<Rightarrow> []
      | Some t \<Rightarrow>
          [(''personality'', personality t), (''ideals'', ideals t), (''bonds'', bonds t),
           (''flaws'', flaws t)])"

definition checkTrait :: "ValidationResult \<Rightarrow> string \<times> string list \<Rightarrow> ValidationResult" where
  "checkTrait result entry =
     (let traitType = fst entry; traitList = snd entry;
          r1 = warningIf (length traitList = 0)
                 (''No '' @ traitType @ '' traits specified'') result
      in warningIf (length traitList > 3)
           (''Excessive number of '' @ traitType @ '' traits'') r1)"

definition validateBackstory :: "Character \<Rightarrow> ValidationResult \<Rightarrow> ValidationResult" where
  "validateBackstory character result =
     (let r1 = (case backstory character of
                  None \<Rightarrow> pushWarning result ''No backstory provided''
                | Some b \<Rightarrow>
                    if b \<noteq> []
                    then warningIf (length b > 1000) ''Backstory is unusually long'' result
                    else pushWarning result ''No backstory provided'')
      in foldl checkTrait r1 (traitEntries (traits character)))"

definition validateCharacter :: "Collaborators \<Rightarrow> Character \<Rightarrow> error + ValidationResult" where
  "validateCharacter env character =
     (let result = \<lparr>isValid = True, errors = [], warnings = []\<rparr>;
          r1 = validateBasicInfo character result;
          r2 = validateAbilityScores character r1;
          r3 = validateClassRequirements character r2
      in case validateMulticlassing character r3 of
           Inl e \<Rightarrow> Inl e
         | Inr r4 \<Rightarrow>
             let r5 = validateArchetype env character r4;
                 r6 = validateAlignment env character r5;
                 r7 = validateSkills character r6;
                 r8 = validateInventory character r7;
                 r9 = validateBackstory character r8
             in Inr (r9\<lparr>isValid := (length (errors r9) = 0)\<rparr>))"

section \<open>CharacterExportSystem\<close>

text \<open>
  The identifier generator and the clock are inputs: \<open>uuid\<close> is what \<^verbatim>\<open>uuidv4()\<close> returns
  and the times are what \<^verbatim>\<open>Date.now()\<close> returns, in milliseconds. The exporter reads the
  clock twice, for the time stamp of the envelope and for the stamp on the character. The
  character of an envelope is partial: it carries every field of the record but may lack
  the id, the status and the campaign.
\<close>

record ExportMetadata =
  validationResult :: ValidationResult
  exportVersion :: string

record ExportFormat =
  version :: string
  exportId :: string
  timestamp :: int
  character :: Character
  metadata :: ExportMetadata

text \<open>The result object of export and import: the flag, the data and the errors.\<close>

record 'a OperationResult =
  success :: bool
  payload :: "'a option"
  resultErrors :: "string list option"

definition sanitizeCharacterData :: "int \<Rightarrow> Character \<Rightarrow> Character" where
  "sanitizeCharacterData now c =
     c\<lparr>charId := None, status := None, campaignId := None, exportedAt := Some now\<rparr>"

definition exportCharacter ::
  "Collaborators \<Rightarrow> string \<Rightarrow> int \<Rightarrow> int \<Rightarrow> Character
     \<Rightarrow> error + ExportFormat OperationResult" where
  "exportCharacter env uuid now now' c =
     (case validateCharacter env c of
        Inl e \<Rightarrow> Inl e
      | Inr vr \<Rightarrow>
          if \<not> isValid vr
          then Inr \<lparr>success = False, payload = None, resultErrors = Some (errors vr)\<rparr>
          else
            let exportData =
                  \<lparr>version = ''1.1.0'', exportId = uuid, timestamp = now,
                   character = sanitizeCharacterData now' c,
                   metadata =
                     \<lparr>validationResult =
                        \<lparr>isValid = isValid vr, errors = errors vr, warnings = warnings vr\<rparr>,
                      exportVersion = ''1.1.0''\<rparr>\<rparr>
            in Inr \<lparr>success = True, payload = Some exportData, resultErrors = None\<rparr>)"

definition MAX_EXPORT_AGE :: int where
  "MAX_EXPORT_AGE = 365 * 24 * 60 * 60 * 1000"

definition importCharacter ::
  "Collaborators \<Rightarrow> string \<Rightarrow> int \<Rightarrow> ExportFormat \<Rightarrow> error + Character OperationResult" where
  "importCharacter env uuid now exportData =
     (if version exportData \<noteq> ''1.1.0''
      then Inr \<lparr>success = False, payload = None,
                resultErrors = Some [''Incompatible export version'']\<rparr>
      else if now - timestamp exportData > MAX_EXPORT_AGE
      then Inr \<lparr>success = False, payload = None,
                resultErrors = Some [''Export data is too old'']\<rparr>
      else
        let importedCharacter = (character exportData)\<lparr>charId := Some uuid\<rparr>
        in case validateCharacter env importedCharacter of
             Inl e \<Rightarrow> Inl e
           | Inr vr \<Rightarrow>
               if \<not> isValid vr
               then Inr \<lparr>success = False, payload = None, resultErrors = Some (errors vr)\<rparr>
               else Inr \<lparr>success = True, payload = Some importedCharacter,
                         resultErrors = None\<rparr>)"

section \<open>CharacterManager\<close>

text \<open>
  The store is the item \<^verbatim>\<open>dnd-characters-v2\<close> of the local storage: absent, or the list of
  characters its JSON text holds.
\<close>

type_synonym storage = "Character list option"

definition getAllCharacters :: "storage \<Rightarrow> Character list" where
  "getAllCharacters st = (case st of None \<Rightarrow> [] | Some cs \<Rightarrow> cs)"

definition getCharacterById :: "storage \<Rightarrow> string \<Rightarrow> Character option" where
  "getCharacterById st characterId =
     find (\<lambda>c. charId c = Some characterId) (getAllCharacters st)"

fun findIndex :: "('a \<Rightarrow> bool) \<Rightarrow> 'a list \<Rightarrow> nat option" where
  "findIndex p [] = None"
| "findIndex p (x # xs) = (if p x then Some 0 else map_option Suc (findIndex p xs))"

definition saveCharacter :: "storage \<Rightarrow> Character \<Rightarrow> storage" where
  "saveCharacter st c =
     (let characters = getAllCharacters st
      in case findIndex (\<lambda>c'. charId c' = charId c) characters of
           Some existingIndex \<Rightarrow> Some (characters[existingIndex := c])
         | None \<Rightarrow> Some (characters @ [c]))"

record BackstoryData =
  newBackstory :: "string option"
  newPersonality :: "string list option"
  newIdeals :: "string list option"
  newBonds :: "string list option"
  newFlaws :: "string list option"

text \<open>
  \<^verbatim>\<open>supplied || character.traits.field\<close>: the stored list is read only when nothing is
  supplied, and reading it from a character without traits throws.
\<close>

definition suppliedOrStored ::
  "string list option \<Rightarrow> Traits option \<Rightarrow> (Traits \<Rightarrow> string list) \<Rightarrow> string
     \<Rightarrow> error + string list" where
  "suppliedOrStored supplied stored field fieldName =
     (case supplied of
        Some xs \<Rightarrow> Inr xs
      | None \<Rightarrow>
          (case stored of
             None \<Rightarrow>
               Inl (TypeError
                      (''Cannot read properties of undefined (reading '' @ [CHR 0x27]
                       @ fieldName @ [CHR 0x27] @ '')''))
           | Some t \<Rightarrow> Inr (field t)))"

definition updateCharacterBackground ::
  "storage \<Rightarrow> string \<Rightarrow> BackstoryData \<Rightarrow> error + Character \<times> storage" where
  "updateCharacterBackground st characterId backstoryData =
     (case getCharacterById st characterId of
        None \<Rightarrow> Inl (Error ''Character not found'')
      | Some c \<Rightarrow>
          let c1 = c\<lparr>backstory :=
                       (case newBackstory backstoryData of
                          None \<Rightarrow> backstory c
                        | Some b \<Rightarrow> if b \<noteq> [] then Some b else backstory c)\<rparr>
          in
            (case suppliedOrStored (newPersonality backstoryData) (traits c1) personality
                    ''personality'' of
               Inl e \<Rightarrow> Inl e
             | Inr p \<Rightarrow>
            (case suppliedOrStored (newIdeals backstoryData) (traits c1) ideals ''ideals'' of
               Inl e \<Rightarrow> Inl e
             | Inr i \<Rightarrow>
            (case suppliedOrStored (newBonds backstoryData) (traits c1) bonds ''bonds'' of
               Inl e \<Rightarrow> Inl e
             | Inr b \<Rightarrow>
            (case suppliedOrStored (newFlaws backstoryData) (traits c1) flaws ''flaws'' of
               Inl e \<Rightarrow> Inl e
             | Inr f \<Rightarrow>
                 let c2 = c1\<lparr>traits :=
                               Some \<lparr>personality = p, ideals = i, bonds = b, flaws = f\<rparr>\<rparr>
                 in Inr (c2, saveCharacter st c2))))))"

section \<open>Sample data\<close>

text \<open>
  Concrete inputs for the evaluations below: collaborators whose archetype check accepts
  everything, and a level 5 human fighter that passes validation.
\<close>

definition sampleCollaborators :: Collaborators where
  "sampleCollaborators =
     \<lparr>validateArchetypeSelection = (\<lambda>c f. \<lparr>isValid = True, errors = [], warnings = []\<rparr>),
      alignmentDefinitions =
        [(''Lawful Good'', \<lparr>moral = ''Good'', ethical = ''Lawful''\<rparr>),
         (''True Neutral'', \<lparr>moral = ''Neutral'', ethical = ''Neutral''\<rparr>)]\<rparr>"

definition sampleFighter :: Character where
  "sampleFighter =
     \<lparr>charId = Some ''c-1'', name = ''Aria'', race = ''Human'', charClass = ''Fighter'',
      level = 5, experience = 1500, status = Some Active,
      abilityScores =
        \<lparr>strength = 15, dexterity = 13, constitution = 14, intelligence = 10, wisdom = 12,
         charisma = 8\<rparr>,
      hitPoints = 44, armorClass = 16, campaignId = Some ''camp-1'',
      inventory = Some [\<lparr>itemId = ''i-1'', itemName = ''Longsword'', weight = Some 3\<rparr>],
      spells = Some [],
      backstory = Some ''Raised in the hills'',
      traits = Some \<lparr>personality = [''Brave''], ideals = [''Honour''], bonds = [''Family''],
                     flaws = [''Stubborn'']\<rparr>,
      multiclass = None, archetypeFeatures = None,
      alignment = Some \<lparr>moral = ''Good'', ethical = ''Lawful''\<rparr>,
      skills = None, exportedAt = None\<rparr>"

text \<open>Variations of the fighter: a second class, scores at and outside the limits.\<close>

definition multiclassedFighter :: Character where
  "multiclassedFighter =
     sampleFighter\<lparr>multiclass := Some [\<lparr>mcClass = ''Wizard'', mcLevel = 1\<rparr>]\<rparr>"

definition overLevelled :: Character where
  "overLevelled =
     sampleFighter\<lparr>level := 15, multiclass := Some [\<lparr>mcClass = ''Wizard'', mcLevel = 6\<rparr>]\<rparr>"

definition sampleWizard :: Character where
  "sampleWizard = sampleFighter\<lparr>charClass := ''Wizard'', level := 2\<rparr>"

definition weakFighter :: Character where
  "weakFighter = sampleFighter\<lparr>abilityScores := (abilityScores sampleFighter)\<lparr>strength := 10\<rparr>\<rparr>"

definition feebleFighter :: Character where
  "feebleFighter = sampleFighter\<lparr>abilityScores := (abilityScores sampleFighter)\<lparr>strength := 2\<rparr>\<rparr>"

text \<open>
  A fighter of level 5 and strength 15 has a skill budget of 10 and a carrying capacity of
  225: 8 skill points and a load of 180 are exactly 80 percent, 9 and 181 are more.
\<close>

definition exactlyEighty :: Character where
  "exactlyEighty =
     sampleFighter
       \<lparr>inventory := Some [\<lparr>itemId = ''i-2'', itemName = ''Anvil'', weight = Some 180\<rparr>],
        skills := Some [(''athletics'', 5), (''perception'', 3)]\<rparr>"

definition overEighty :: Character where
  "overEighty =
     sampleFighter
       \<lparr>inventory := Some [\<lparr>itemId = ''i-2'', itemName = ''Anvil'', weight = Some 181\<rparr>],
        skills := Some [(''athletics'', 5), (''perception'', 4)]\<rparr>"

text \<open>The envelope that exporting the fighter produces, and a store that holds the fighter.\<close>

definition sampleExport :: ExportFormat where
  "sampleExport =
     \<lparr>version = ''1.1.0'', exportId = ''e-1'', timestamp = 1000,
      character = sanitizeCharacterData 1001 sampleFighter,
      metadata =
        \<lparr>validationResult =
           \<lparr>isValid = True, errors = [],
            warnings = [''No archetype selected for Fighter'']\<rparr>,
         exportVersion = ''1.1.0''\<rparr>\<rparr>"

definition sampleStore :: storage where
  "sampleStore = Some [sampleFighter]"

text \<open>A background update that supplies a backstory and the ideals, and nothing else.\<close>

definition samplePatch :: BackstoryData where
  "samplePatch =
     \<lparr>newBackstory = Some ''A new tale'', newPersonality = None, newIdeals = Some [''Glory''],
      newBonds = None, newFlaws = None\<rparr>"

text \<open>An error names an ability when it starts with the capitalised name of the ability.\<close>

definition namesAbility :: "string \<Rightarrow> string \<Rightarrow> bool" where
  "namesAbility ability msg = (take (length ability) msg = capitalize ability)"

section \<open>Hit points on multiclassing\<close>

lemma hitDiceByClass_nonzero: "map_of hitDiceByClass k = Some d \<Longrightarrow> d \<noteq> 0"
proof -
  assume "map_of hitDiceByClass k = Some d"
  then have "(k, d) \<in> set hitDiceByClass" by (rule map_of_SomeD)
  then show "d \<noteq> 0" by (auto simp: hitDiceByClass_def)
qed

lemma getProperty_own_keys:
  "key \<notin> set objectPrototypeMembers \<Longrightarrow>
   getProperty table key = (case map_of table key of None \<Rightarrow> Undefined | Some v \<Rightarrow> Own v)"
  by (simp add: getProperty_def split: option.splits)

lemma getProperty_inherited:
  "key \<in> set objectPrototypeMembers \<Longrightarrow> key \<notin> set (map fst table) \<Longrightarrow>
   getProperty table key = Inherited"
  by (simp add: getProperty_def map_of_eq_None_iff [THEN iffD2])

lemma baseHitDice_table:
  assumes "newClass \<notin> set objectPrototypeMembers"
  shows "baseHitDice newClass =
           Finite (case map_of hitDiceByClass newClass of None \<Rightarrow> 8 | Some d \<Rightarrow> d)"
  by (auto simp: baseHitDice_def getProperty_own_keys [OF assms] split: option.splits
        dest: hitDiceByClass_nonzero)

lemma fighter_die: "map_of hitDiceByClass ''Fighter'' = Some 10"
  by (simp add: hitDiceByClass_def)

lemma fighter_not_inherited: "''Fighter'' \<notin> set objectPrototypeMembers"
  by (simp add: objectPrototypeMembers_def)

text \<open>
  For a name inherited from \<^verbatim>\<open>Object.prototype\<close> the table lookup does not fall back to
  8 and the result is NaN.
\<close>

lemma calculateMulticlassHitPoints_inherited:
  assumes "newClass \<in> set objectPrototypeMembers"
  shows "calculateMulticlassHitPoints c newClass = NaN"
proof -
  have "set objectPrototypeMembers \<inter> set (map fst hitDiceByClass) = {}"
    by (simp add: objectPrototypeMembers_def hitDiceByClass_def)
  with assms have "newClass \<notin> set (map fst hitDiceByClass)" by blast
  with assms have "getProperty hitDiceByClass newClass = Inherited"
    by (rule getProperty_inherited)
  then show ?thesis by (simp add: calculateMulticlassHitPoints_def baseHitDice_def)
qed

text \<open>
  Claim C4. For every target class, that is every name that is not a member inherited from
  \<^verbatim>\<open>Object.prototype\<close>, the hit points gained on multiclassing are
  \<open>max 1 (hitDie newClass div 2 + (constitution - 10) div 2)\<close>, where \<open>hitDie\<close> is the
  table entry of the class and 8 for a class the table does not list; the value is a number
  and at least 1, and it is 7 for a Fighter (hit die 10) with constitution 14.
\<close>

theorem calculateMulticlassHitPoints_spec:
  assumes "newClass \<notin> set objectPrototypeMembers"
  shows "calculateMulticlassHitPoints c newClass =
           Finite (max 1 ((case map_of hitDiceByClass newClass of None \<Rightarrow> 8 | Some d \<Rightarrow> d) div 2
                          + (constitution (abilityScores c) - 10) div 2))
       \<and> (case calculateMulticlassHitPoints c newClass of Finite n \<Rightarrow> 1 \<le> n | NaN \<Rightarrow> False)
       \<and> map_of hitDiceByClass ''Fighter'' = Some 10
       \<and> calculateMulticlassHitPoints
            (c\<lparr>abilityScores := (abilityScores c)\<lparr>constitution := 14\<rparr>\<rparr>) ''Fighter'' = Finite 7"
  by (simp add: calculateMulticlassHitPoints_def baseHitDice_table [OF assms]
        baseHitDice_table [OF fighter_not_inherited] fighter_die)

text \<open>
  A monk is a class the table does not list: with the fighter's constitution of 14 the
  gain is \<open>8 div 2 + 2 = 6\<close>.
\<close>

theorem calculateMulticlassHitPoints_spec_witness:
  "''Monk'' \<notin> set objectPrototypeMembers
   \<and> map_of hitDiceByClass ''Monk'' = None
   \<and> calculateMulticlassHitPoints sampleFighter ''Monk'' = Finite 6"
proof -
  have h: "''Monk'' \<notin> set objectPrototypeMembers"
    by (simp add: objectPrototypeMembers_def)
  have t: "map_of hitDiceByClass ''Monk'' = None"
    by (simp add: hitDiceByClass_def)
  have c: "constitution (abilityScores sampleFighter) = 14"
    by (simp add: sampleFighter_def)
  from calculateMulticlassHitPoints_spec [OF h, of sampleFighter] h t c
  show ?thesis by simp
qed

section \<open>Spell progression\<close>

lemma rules_cap_nonneg:
  assumes "map_of spellLearningRules k = Some r"
  shows "0 \<le> maxSpellsPerLevel r"
proof -
  from assms have "(k, r) \<in> set spellLearningRules" by (rule map_of_SomeD)
  then show ?thesis by (auto simp: spellLearningRules_def)
qed

lemma take_clipped: "0 \<le> n \<Longrightarrow> take (nat (min n (int (length xs)))) xs = take (nat n) xs"
  by (cases "n \<le> int (length xs)") (simp_all add: min_def)

lemma sliceFromStart_nonneg:
  "0 \<le> toIntegerOrInfinity e \<Longrightarrow> sliceFromStart xs e = take (nat (toIntegerOrInfinity e)) xs"
  by (simp add: sliceFromStart_def Let_def take_clipped)

lemma sliceFromStart_of_int:
  "0 \<le> n \<Longrightarrow> sliceFromStart xs (of_int n) = take (nat n) xs"
  by (simp add: sliceFromStart_nonneg toIntegerOrInfinity_def)

text \<open>
  For a class named like a member inherited from \<^verbatim>\<open>Object.prototype\<close> the function
  throws.
\<close>

lemma getNewSpellsForLevel_inherited:
  assumes "charClass c \<in> set objectPrototypeMembers"
  shows "getNewSpellsForLevel c =
           Inl (TypeError
                  (''Cannot read properties of undefined (reading '' @ [CHR 0x27]
                   @ ''includes'' @ [CHR 0x27] @ '')''))"
proof -
  have "set objectPrototypeMembers \<inter> set (map fst spellLearningRules) = {}"
    by (simp add: objectPrototypeMembers_def spellLearningRules_def)
  with assms have "charClass c \<notin> set (map fst spellLearningRules)" by blast
  with assms have "getProperty spellLearningRules (charClass c) = Inherited"
    by (rule getProperty_inherited)
  then show ?thesis by (simp add: getNewSpellsForLevel_def)
qed

text \<open>
  Claim C6. For every character whose class is a class name, that is not a member
  inherited from \<^verbatim>\<open>Object.prototype\<close>, \<open>getNewSpellsForLevel\<close> returns the empty list when
  the class has no entry in the spell-learning table or the level is not one of the class's
  spell-learning levels; otherwise it returns the list that the class's table keys by
  \<open>level div 2\<close> (empty when the table has no list under that key), cut to the class's cap.
\<close>

theorem getNewSpellsForLevel_spec:
  assumes "charClass c \<notin> set objectPrototypeMembers"
  shows "getNewSpellsForLevel c =
     Inr (case map_of spellLearningRules (charClass c) of
            None \<Rightarrow> []
          | Some classRules \<Rightarrow>
              if level c \<notin> set (spellLearningLevels classRules) then []
              else take (nat (maxSpellsPerLevel classRules))
                     (case map_of (spellListByLevel classRules) (level c div 2) of
                        None \<Rightarrow> [] | Some newSpells \<Rightarrow> newSpells))"
  by (simp add: getNewSpellsForLevel_def getProperty_own_keys [OF assms] orEmpty_def Let_def
        sliceFromStart_of_int rules_cap_nonneg split: option.splits)

text \<open>
  A wizard of level 2 learns the list under key 1; a fighter has no table entry and learns
  nothing.
\<close>

theorem getNewSpellsForLevel_spec_witness:
  "charClass sampleWizard \<notin> set objectPrototypeMembers
   \<and> getNewSpellsForLevel sampleWizard =
       Inr [mkSpell ''Magic Missile'' 1 ''Evocation'', mkSpell ''Shield'' 1 ''Abjuration'',
            mkSpell ''Mage Armor'' 1 ''Abjuration'']
   \<and> charClass sampleFighter \<notin> set objectPrototypeMembers
   \<and> getNewSpellsForLevel sampleFighter = Inr []"
proof -
  have w: "charClass sampleWizard \<notin> set objectPrototypeMembers"
    by (simp add: sampleWizard_def objectPrototypeMembers_def)
  have f: "charClass sampleFighter \<notin> set objectPrototypeMembers"
    by (simp add: sampleFighter_def objectPrototypeMembers_def)
  have cw: "charClass sampleWizard = ''Wizard''" "level sampleWizard = 2"
    by (simp_all add: sampleWizard_def)
  have cf: "charClass sampleFighter = ''Fighter''"
    by (simp add: sampleFighter_def)
  from getNewSpellsForLevel_spec [OF w] getNewSpellsForLevel_spec [OF f] w f
  show ?thesis by (simp add: cw cf spellLearningRules_def)
qed

lemma half_floor: "\<lfloor>(of_int l :: rat) / 2 + of_int w\<rfloor> = l div 2 + w"
proof -
  have "\<lfloor>(of_int l :: rat) / of_int 2\<rfloor> = l div 2" by (rule floor_divide_of_int_eq)
  then show ?thesis by simp
qed

lemma floor_max_one: "\<lfloor>max 1 (q :: rat)\<rfloor> = max 1 \<lfloor>q\<rfloor>"
proof (cases "1 \<le> q")
  case True
  then have "1 \<le> \<lfloor>q\<rfloor>" by (simp add: le_floor_iff)
  with True show ?thesis by (simp add: max_def)
next
  case False
  then have "\<lfloor>q\<rfloor> < 1" by (simp add: floor_less_iff)
  with False show ?thesis by (simp add: max_def)
qed

lemma preparable_trunc:
  "toIntegerOrInfinity (max 1 ((of_int l :: rat) / 2 + of_int w)) = max 1 (l div 2 + w)"
proof -
  let ?q = "(of_int l :: rat) / 2 + of_int w"
  have "\<not> max 1 ?q < 0" by (simp add: max_def)
  then have "toIntegerOrInfinity (max 1 ?q) = \<lfloor>max 1 ?q\<rfloor>"
    by (simp add: toIntegerOrInfinity_def)
  also have "\<dots> = max 1 \<lfloor>?q\<rfloor>" by (rule floor_max_one)
  finally show ?thesis by (simp only: half_floor)
qed

text \<open>
  Claim C7. \<open>prepareDailySpells\<close> returns the first \<open>N\<close> spells of the character's spell
  list, in the order of the list, each marked prepared, where
  \<open>N = max 1 (level div 2 + (wisdom - 10) div 2)\<close>, and it leaves the character, and so the
  character's own spell list, as it was.
\<close>

theorem prepareDailySpells_spec:
  "fst (prepareDailySpells c) =
     map (\<lambda>spell. spell\<lparr>prepared := Some True\<rparr>)
       (take (nat (max 1 (level c div 2 + (wisdom (abilityScores c) - 10) div 2)))
          (orEmpty (spells c)))
   \<and> snd (prepareDailySpells c) = c
   \<and> spells (snd (prepareDailySpells c)) = spells c"
  by (simp add: prepareDailySpells_def Let_def sliceFromStart_nonneg preparable_trunc)

section \<open>How the checks extend the result\<close>

lemma errors_errorIf: "errors (errorIf b m r) = errors r @ (if b then [m] else [])"
  by (simp add: errorIf_def pushError_def)

lemma warnings_errorIf: "warnings (errorIf b m r) = warnings r"
  by (simp add: errorIf_def pushError_def)

lemma errors_warningIf: "errors (warningIf b m r) = errors r"
  by (simp add: warningIf_def pushWarning_def)

lemma warnings_warningIf: "warnings (warningIf b m r) = warnings r @ (if b then [m] else [])"
  by (simp add: warningIf_def pushWarning_def)

lemma mem_errors_errorIf:
  "x \<in> set (errors (errorIf b m r)) \<longleftrightarrow> x \<in> set (errors r) \<or> (b \<and> x = m)"
  by (auto simp: errors_errorIf)

lemma mem_warnings_warningIf:
  "x \<in> set (warnings (warningIf b m r)) \<longleftrightarrow> x \<in> set (warnings r) \<or> (b \<and> x = m)"
  by (auto simp: warnings_warningIf)

lemma rangeMessages_literal:
  "rangeMessages =
     [''Strength score must be between 3 and 20'',
      ''Dexterity score must be between 3 and 20'',
      ''Constitution score must be between 3 and 20'',
      ''Intelligence score must be between 3 and 20'',
      ''Wisdom score must be between 3 and 20'',
      ''Charisma score must be between 3 and 20'']"
  by (simp add: rangeMessages_def abilityNames_def rangeMessage_def capitalize_def
        toUpperChar_def lowerLetters_def upperLetters_def showInt_def showNat.simps
        digitChar_def)

lemma errorIf_foreign:
  "x \<in> set rangeMessages \<Longrightarrow> m \<notin> set rangeMessages \<Longrightarrow>
   x \<in> set (errors (errorIf b m r)) \<longleftrightarrow> x \<in> set (errors r)"
  by (auto simp: mem_errors_errorIf)

lemma foreign_messages:
  "''Character name must be at least 2 characters long'' \<notin> set rangeMessages"
  "''Invalid race. Must be one of: '' @ t \<notin> set rangeMessages"
  "''Invalid class. Must be one of: '' @ t \<notin> set rangeMessages"
  "''Character level must be at least 1'' \<notin> set rangeMessages"
  "''Character level cannot exceed 20'' \<notin> set rangeMessages"
  "''Dexterity must be at least '' @ t \<notin> set rangeMessages"
  "''Strength must be at least '' @ t \<notin> set rangeMessages"
  "''Constitution must be at least '' @ t \<notin> set rangeMessages"
  "''Intelligence must be at least '' @ t \<notin> set rangeMessages"
  "''Wisdom must be at least '' @ t \<notin> set rangeMessages"
  "''Invalid character alignment'' \<notin> set rangeMessages"
  "''Skill '' @ t \<notin> set rangeMessages"
  "''Total skill points ('' @ t \<notin> set rangeMessages"
  "''Inventory weight ('' @ t \<notin> set rangeMessages"
  "''Duplicate item found: '' @ t \<notin> set rangeMessages"
  by (simp_all add: rangeMessages_literal)

lemmas foreign = foreign_messages [simplified]

lemma basic_range:
  "x \<in> set rangeMessages \<Longrightarrow>
   x \<in> set (errors (validateBasicInfo c r)) \<longleftrightarrow> x \<in> set (errors r)"
  by (simp add: validateBasicInfo_def Let_def errorIf_foreign foreign errors_warningIf)


lemma foldl_keeps:
  assumes "\<And>r e. e \<in> set es \<Longrightarrow> P (f r e) = P r"
  shows "P (foldl f r es) = P r"
  using assms by (induction es arbitrary: r) simp_all

lemma mem_errors_foldl_checkAbilityRange:
  "x \<in> set (errors (foldl checkAbilityRange r es)) \<longleftrightarrow>
     x \<in> set (errors r) \<or> (\<exists>e \<in> set es. (snd e < 3 \<or> snd e > 20) \<and> x = rangeMessage (fst e) 3 20)"
proof (induction es arbitrary: r)
  case Nil
  show ?case by simp
next
  case (Cons e es)
  have "x \<in> set (errors (checkAbilityRange r e)) \<longleftrightarrow>
          x \<in> set (errors r) \<or> ((snd e < 3 \<or> snd e > 20) \<and> x = rangeMessage (fst e) 3 20)"
    by (simp add: checkAbilityRange_def Let_def mem_errors_errorIf)
  then show ?case by (simp add: Cons.IH)
qed

lemma distinct_rangeMessages: "distinct rangeMessages"
  by (simp add: rangeMessages_literal)

lemma rangeMessage_inj:
  assumes "a \<in> set abilityNames" and "a' \<in> set abilityNames"
    and "rangeMessage a 3 20 = rangeMessage a' 3 20"
  shows "a = a'"
proof -
  have "inj_on (\<lambda>ability. rangeMessage ability 3 20) (set abilityNames)"
    using distinct_rangeMessages unfolding rangeMessages_def by (simp add: distinct_map)
  with assms show ?thesis by (auto dest: inj_onD)
qed

lemma abilityEntries_names: "map fst (abilityEntries s) = abilityNames"
  by (simp add: abilityEntries_def abilityNames_def)

lemma abilityEntries_fst:
  assumes "e \<in> set (abilityEntries s)"
  shows "fst e \<in> set abilityNames"
proof -
  from assms have "fst e \<in> set (map fst (abilityEntries s))" by simp
  then show ?thesis by (simp only: abilityEntries_names)
qed

lemma distinct_abilityNames: "distinct abilityNames"
  by (simp add: abilityNames_def)

lemma abilityEntries_functional:
  assumes "(a, v) \<in> set (abilityEntries s)" and "(a, v') \<in> set (abilityEntries s)"
  shows "v = v'"
proof -
  have d: "distinct (map fst (abilityEntries s))"
    by (simp only: abilityEntries_names distinct_abilityNames)
  from assms have "map_of (abilityEntries s) a = Some v" "map_of (abilityEntries s) a = Some v'"
    by (simp_all add: map_of_eq_Some_iff [OF d])
  then show ?thesis by simp
qed

lemma rangeMessage_member:
  "a \<in> set abilityNames \<Longrightarrow> rangeMessage a 3 20 \<in> set rangeMessages"
  by (simp add: rangeMessages_def)


lemma ability_stage:
  assumes "(a, v) \<in> set (abilityEntries (abilityScores c))"
  shows "rangeMessage a 3 20 \<in> set (errors (validateAbilityScores c r)) \<longleftrightarrow>
           rangeMessage a 3 20 \<in> set (errors r) \<or> v < 3 \<or> v > 20"
proof -
  let ?x = "rangeMessage a 3 20"
  let ?es = "abilityEntries (abilityScores c)"
  let ?r1 = "foldl checkAbilityRange r ?es"
  have a: "a \<in> set abilityNames" using assms abilityEntries_fst by fastforce
  then have x: "?x \<in> set rangeMessages" by (rule rangeMessage_member)
  have "(\<exists>e \<in> set ?es. (snd e < 3 \<or> snd e > 20) \<and> ?x = rangeMessage (fst e) 3 20)
          \<longleftrightarrow> v < 3 \<or> v > 20"
  proof
    assume "\<exists>e \<in> set ?es. (snd e < 3 \<or> snd e > 20) \<and> ?x = rangeMessage (fst e) 3 20"
    then obtain a' v' where e: "(a', v') \<in> set ?es" "v' < 3 \<or> v' > 20"
      "?x = rangeMessage a' 3 20" by auto
    from e(1) have "a' \<in> set abilityNames" using abilityEntries_fst by fastforce
    with a e(3) have "a = a'" by (auto intro: rangeMessage_inj)
    with e(1) assms have "v = v'" by (auto dest: abilityEntries_functional)
    with e(2) show "v < 3 \<or> v > 20" by simp
  next
    assume "v < 3 \<or> v > 20"
    with assms show "\<exists>e \<in> set ?es. (snd e < 3 \<or> snd e > 20) \<and> ?x = rangeMessage (fst e) 3 20"
      by force
  qed
  then have r1: "?x \<in> set (errors ?r1) \<longleftrightarrow> ?x \<in> set (errors r) \<or> v < 3 \<or> v > 20"
    by (simp add: mem_errors_foldl_checkAbilityRange)
  have "?x \<in> set (errors (validateAbilityScores c r)) \<longleftrightarrow> ?x \<in> set (errors ?r1)"
    using x
    by (simp add: validateAbilityScores_def Let_def errors_warningIf errorIf_foreign foreign
          split: option.splits)
  with r1 show ?thesis by simp
qed

lemma requirement_entries:
  assumes "map_of classRequirements cls = Some reqs" and "e \<in> set reqs"
  shows "e \<in> set [(''minStrength'', 13), (''minConstitution'', 12), (''minIntelligence'', 14),
                   (''minDexterity'', 10), (''minDexterity'', 13), (''minIntelligence'', 10),
                   (''minWisdom'', 13), (''minConstitution'', 10)]"
proof -
  from assms(1) have "(cls, reqs) \<in> set classRequirements" by (rule map_of_SomeD)
  with assms(2) have "e \<in> set (concat (map snd classRequirements))" by force
  then show ?thesis by (simp add: classRequirements_def)
qed

lemma requirement_names:
  "toLowerCase ''Strength'' = ''strength''"
  "toLowerCase ''Constitution'' = ''constitution''"
  "toLowerCase ''Intelligence'' = ''intelligence''"
  "toLowerCase ''Dexterity'' = ''dexterity''"
  "toLowerCase ''Wisdom'' = ''wisdom''"
  by (simp_all add: toLowerCase_def toLowerChar_def lowerLetters_def upperLetters_def)

lemma capitalized_names:
  "capitalize ''strength'' = ''Strength''"
  "capitalize ''constitution'' = ''Constitution''"
  "capitalize ''intelligence'' = ''Intelligence''"
  "capitalize ''dexterity'' = ''Dexterity''"
  "capitalize ''wisdom'' = ''Wisdom''"
  by (simp_all add: capitalize_def toUpperChar_def lowerLetters_def upperLetters_def)

lemma checkRequirement_range:
  assumes "x \<in> set rangeMessages"
    and "map_of classRequirements cls = Some reqs" and "e \<in> set reqs"
  shows "x \<in> set (errors (checkRequirement c r e)) \<longleftrightarrow> x \<in> set (errors r)"
proof -
  have "fst e \<in> set [''minStrength'', ''minConstitution'', ''minIntelligence'',
          ''minDexterity'', ''minWisdom'']"
    using requirement_entries [OF assms(2,3)] by auto
  then consider "fst e = ''minStrength''" | "fst e = ''minConstitution''"
    | "fst e = ''minIntelligence''" | "fst e = ''minDexterity''" | "fst e = ''minWisdom''"
    by auto
  then show ?thesis
    using assms(1)
    by cases
       (simp_all add: checkRequirement_def Let_def requirement_names capitalized_names
          abilityEntries_def errorIf_foreign foreign)
qed

lemma class_stage:
  assumes "x \<in> set rangeMessages"
  shows "x \<in> set (errors (validateClassRequirements c r)) \<longleftrightarrow> x \<in> set (errors r)"
proof (cases "map_of classRequirements (charClass c)")
  case None
  then show ?thesis by (simp add: validateClassRequirements_def)
next
  case (Some reqs)
  have "(x \<in> set (errors (foldl (checkRequirement c) r reqs))) = (x \<in> set (errors r))"
    by (rule foldl_keeps [where P = "\<lambda>r. x \<in> set (errors r)"])
       (rule checkRequirement_range [OF assms Some])
  with Some show ?thesis by (simp add: validateClassRequirements_def)
qed


lemma forEachMulticlass_throws:
  "forEachMulticlass c (mc # rest) r =
     Inl (TypeError ''MulticlassSystem.validateMulticlassing is not a function'')"
  by (simp add: MulticlassSystem_validateMulticlassing_def)

lemma validateMulticlassing_nonempty:
  "multiclass c = Some (mc # rest) \<Longrightarrow>
   validateMulticlassing c r =
     Inl (TypeError ''MulticlassSystem.validateMulticlassing is not a function'')"
  by (simp add: validateMulticlassing_def MulticlassSystem_validateMulticlassing_def)

lemma validateMulticlassing_returns:
  assumes "validateMulticlassing c r = Inr r'"
  shows "r' = r \<and> (multiclass c = None \<or> multiclass c = Some [])"
proof (cases "multiclass c")
  case None
  with assms show ?thesis by (simp add: validateMulticlassing_def)
next
  case (Some mcs)
  show ?thesis
  proof (cases mcs)
    case Nil
    with Some assms show ?thesis by (simp add: validateMulticlassing_def)
  next
    case (Cons mc rest)
    with Some assms show ?thesis by (simp add: validateMulticlassing_nonempty)
  qed
qed

lemma errors_validateArchetype:
  "errors (validateArchetype env c r) =
     errors r @ errors (validateArchetype env c \<lparr>isValid = True, errors = [], warnings = []\<rparr>)"
  by (simp add: validateArchetype_def Let_def pushErrors_def pushWarning_def
        split: option.splits)

lemma alignment_stage:
  "x \<in> set rangeMessages \<Longrightarrow>
   x \<in> set (errors (validateAlignment env c r)) \<longleftrightarrow> x \<in> set (errors r)"
  by (simp add: validateAlignment_def Let_def pushWarning_def errorIf_foreign foreign
        split: option.splits)

lemma checkSkill_range:
  "x \<in> set rangeMessages \<Longrightarrow>
   x \<in> set (errors (checkSkill r e)) \<longleftrightarrow> x \<in> set (errors r)"
  by (simp add: checkSkill_def Let_def errorIf_foreign foreign)

lemma skills_stage:
  assumes "x \<in> set rangeMessages"
  shows "x \<in> set (errors (validateSkills c r)) \<longleftrightarrow> x \<in> set (errors r)"
proof (cases "skills c")
  case None
  then show ?thesis by (simp add: validateSkills_def)
next
  case (Some sk)
  have "(x \<in> set (errors (foldl checkSkill r sk))) = (x \<in> set (errors r))"
    by (rule foldl_keeps [where P = "\<lambda>r. x \<in> set (errors r)"])
       (rule checkSkill_range [OF assms])
  with Some assms show ?thesis
    by (simp add: validateSkills_def Let_def errors_warningIf errorIf_foreign foreign)
qed

lemma checkDuplicates_range:
  "x \<in> set rangeMessages \<Longrightarrow>
   x \<in> set (errors (checkDuplicates seen items r)) \<longleftrightarrow> x \<in> set (errors r)"
  by (induction seen items r rule: checkDuplicates.induct)
     (simp_all add: errorIf_foreign foreign)

lemma inventory_stage:
  "x \<in> set rangeMessages \<Longrightarrow>
   x \<in> set (errors (validateInventory c r)) \<longleftrightarrow> x \<in> set (errors r)"
  by (simp add: validateInventory_def Let_def checkDuplicates_range errors_warningIf
        errorIf_foreign foreign split: option.splits)

lemma errors_checkTrait: "errors (checkTrait r e) = errors r"
  by (simp add: checkTrait_def Let_def errors_warningIf)

lemma errors_validateBackstory: "errors (validateBackstory c r) = errors r"
proof -
  have "errors (foldl checkTrait r' es) = errors r'" for r' es
    by (induction es arbitrary: r') (simp_all add: errors_checkTrait)
  then show ?thesis
    by (simp add: validateBackstory_def Let_def errors_warningIf pushWarning_def
          split: option.splits)
qed


lemma validateCharacter_returns:
  assumes "validateCharacter env c = Inr r"
  obtains r3 r9 where
    "r3 = validateClassRequirements c
            (validateAbilityScores c
               (validateBasicInfo c \<lparr>isValid = True, errors = [], warnings = []\<rparr>))"
    "r9 = validateBackstory c
            (validateInventory c
               (validateSkills c (validateAlignment env c (validateArchetype env c r3))))"
    "r = r9\<lparr>isValid := (length (errors r9) = 0)\<rparr>"
    "multiclass c = None \<or> multiclass c = Some []"
proof -
  let ?r3 = "validateClassRequirements c
               (validateAbilityScores c
                  (validateBasicInfo c \<lparr>isValid = True, errors = [], warnings = []\<rparr>))"
  from assms obtain r4 where r4: "validateMulticlassing c ?r3 = Inr r4"
    by (auto simp: validateCharacter_def Let_def split: sum.splits)
  then have "r4 = ?r3" and mc: "multiclass c = None \<or> multiclass c = Some []"
    using validateMulticlassing_returns by blast+
  with r4 assms have
    "r = (validateBackstory c
            (validateInventory c
               (validateSkills c (validateAlignment env c (validateArchetype env c ?r3)))))
         \<lparr>isValid := (length (errors (validateBackstory c
            (validateInventory c
               (validateSkills c (validateAlignment env c (validateArchetype env c ?r3)))))) = 0)\<rparr>"
    by (simp add: validateCharacter_def Let_def)
  with mc that show ?thesis by blast
qed

section \<open>The multiclass check\<close>

text \<open>
  Claim C1 says that validation of a character with a non-empty multiclass list returns an
  aggregated result and never throws. The code does the opposite: for every character whose
  multiclass list is non-empty, the first entry makes \<open>validateCharacter\<close> call the
  missing method, and the TypeError of that call is what the validation ends with.
\<close>

theorem validateCharacter_multiclass_throws:
  "multiclass c = Some (mc # rest) \<Longrightarrow>
   validateCharacter env c =
     Inl (TypeError ''MulticlassSystem.validateMulticlassing is not a function'')"
  by (simp add: validateCharacter_def Let_def validateMulticlassing_nonempty)

text \<open>The fighter with one wizard level is such a character.\<close>

theorem validateCharacter_multiclass_throws_witness:
  "multiclass multiclassedFighter = Some [\<lparr>mcClass = ''Wizard'', mcLevel = 1\<rparr>]
   \<and> validateCharacter sampleCollaborators multiclassedFighter =
       Inl (TypeError ''MulticlassSystem.validateMulticlassing is not a function'')"
proof -
  have h: "multiclass multiclassedFighter = Some [\<lparr>mcClass = ''Wizard'', mcLevel = 1\<rparr>]"
    by (simp add: multiclassedFighter_def)
  from validateCharacter_multiclass_throws [OF h] h show ?thesis by simp
qed

lemma totalLevelCheck_errors:
  "errors (totalLevelCheck totalLevel r) =
     errors r @ (if totalLevel > 20 then [''Total character levels cannot exceed 20''] else [])"
  by (simp add: totalLevelCheck_def Let_def errors_warningIf errors_errorIf)

lemma totalLevelCheck_exactly_twenty: "errors (totalLevelCheck 20 r) = errors r"
  by (simp add: totalLevelCheck_errors)

text \<open>
  Claim C5 says that a combined level above 20 makes validation report a blocking error.
  The total-level check would add that error (and none at exactly 20, as the two lemmas
  above show), but it is never reached: a fighter of level 15 with 6 wizard levels, 21 in
  all, gets the TypeError of the multiclass loop and no validation result.
\<close>

theorem total_level_throws:
  "level overLevelled + sum_list (map mcLevel (orEmpty (multiclass overLevelled))) = 21
   \<and> validateCharacter sampleCollaborators overLevelled =
       Inl (TypeError ''MulticlassSystem.validateMulticlassing is not a function'')"
  by code_simp

section \<open>Ability score ranges\<close>

text \<open>
  Claim C3, as amended. Whenever validation returns a result, for each of the six
  abilities the result holds the range error of that ability,
  \<open>''<Ability> score must be between 3 and 20''\<close>, exactly when the score is below 3 or above
  20, or when the archetype collaborator itself returns that text. A score inside the range
  never brings the range error; errors of other checks (a class minimum, the racial
  minimum of dexterity) can still name the ability.
\<close>

theorem range_error_iff:
  assumes "validateCharacter env c = Inr r"
    and "(a, v) \<in> set (abilityEntries (abilityScores c))"
  shows "rangeMessage a 3 20 \<in> set (errors r) \<longleftrightarrow>
           (v < 3 \<or> 20 < v)
           \<or> rangeMessage a 3 20
                \<in> set (errors (validateArchetype env c
                                  \<lparr>isValid = True, errors = [], warnings = []\<rparr>))"
proof -
  let ?x = "rangeMessage a 3 20"
  have "a \<in> set abilityNames" using assms(2) abilityEntries_fst by fastforce
  then have x: "?x \<in> set rangeMessages" by (rule rangeMessage_member)
  from assms(1) obtain r3 r9 where
    r3: "r3 = validateClassRequirements c
            (validateAbilityScores c
               (validateBasicInfo c \<lparr>isValid = True, errors = [], warnings = []\<rparr>))"
    and r9: "r9 = validateBackstory c
            (validateInventory c
               (validateSkills c (validateAlignment env c (validateArchetype env c r3))))"
    and r: "r = r9\<lparr>isValid := (length (errors r9) = 0)\<rparr>"
    by (rule validateCharacter_returns)
  have "?x \<in> set (errors r3) \<longleftrightarrow> v < 3 \<or> 20 < v"
    by (simp add: r3 class_stage [OF x] ability_stage [OF assms(2)] basic_range [OF x])
  moreover have "?x \<in> set (errors r) \<longleftrightarrow>
      ?x \<in> set (errors r3)
      \<or> ?x \<in> set (errors (validateArchetype env c
                                \<lparr>isValid = True, errors = [], warnings = []\<rparr>))"
    by (simp add: r r9 errors_validateBackstory inventory_stage [OF x] skills_stage [OF x]
          alignment_stage [OF x] errors_validateArchetype [of env c r3])
  ultimately show ?thesis by simp
qed

lemma feeble_validation:
  "validateCharacter sampleCollaborators feebleFighter =
     Inr \<lparr>isValid = False,
          errors = [''Strength score must be between 3 and 20'',
                    ''Strength must be at least 13 for Fighter''],
          warnings = [''Total ability scores are low for Human'',
                      ''No archetype selected for Fighter'']\<rparr>"
  by code_simp

text \<open>A fighter of strength 2 is validated and gets the range error for strength.\<close>

theorem range_error_iff_witness:
  "validateCharacter sampleCollaborators feebleFighter =
     Inr \<lparr>isValid = False,
          errors = [''Strength score must be between 3 and 20'',
                    ''Strength must be at least 13 for Fighter''],
          warnings = [''Total ability scores are low for Human'',
                      ''No archetype selected for Fighter'']\<rparr>
   \<and> (''strength'', 2) \<in> set (abilityEntries (abilityScores feebleFighter))
   \<and> rangeMessage ''strength'' 3 20
       \<in> set [''Strength score must be between 3 and 20'',
               ''Strength must be at least 13 for Fighter'']"
proof -
  have h2: "(''strength'', 2) \<in> set (abilityEntries (abilityScores feebleFighter))"
    by (simp add: abilityEntries_def feebleFighter_def sampleFighter_def)
  from range_error_iff [OF feeble_validation h2] feeble_validation h2 show ?thesis by simp
qed

text \<open>
  The claim as first stated fails: a fighter of strength 10, inside the range, is reported
  with an error that names strength, the class minimum.
\<close>

theorem in_range_error_counterexample:
  "(''strength'', 10) \<in> set (abilityEntries (abilityScores weakFighter))
   \<and> validateCharacter sampleCollaborators weakFighter =
       Inr \<lparr>isValid = False,
            errors = [''Strength must be at least 13 for Fighter''],
            warnings = [''No archetype selected for Fighter'']\<rparr>
   \<and> namesAbility ''strength'' ''Strength must be at least 13 for Fighter''"
  by code_simp

section \<open>Warnings near the limits\<close>

lemma warnings_checkDuplicates: "warnings (checkDuplicates seen items r) = warnings r"
  by (induction seen items r rule: checkDuplicates.induct) (simp_all add: warnings_errorIf)

lemma warnings_checkSkill: "warnings (checkSkill r e) = warnings r"
  by (simp add: checkSkill_def Let_def warnings_errorIf)

lemma warnings_foldl_checkSkill: "warnings (foldl checkSkill r sk) = warnings r"
  by (induction sk arbitrary: r) (simp_all add: warnings_checkSkill)

lemma skills_near_maximum:
  assumes "skills c = Some sk"
    and "(of_int (sum_list (map snd sk)) :: rat) > of_int (level c * 2) * (8 / 10)"
  shows "''Skill points are near maximum allocation'' \<in> set (warnings (validateSkills c r))"
  using assms by (simp add: validateSkills_def Let_def mem_warnings_warningIf)

lemma inventory_near_capacity:
  assumes "inventory c = Some items"
    and "(of_int (sum_list (map (\<lambda>item. case weight item of None \<Rightarrow> 0 | Some w \<Rightarrow> w) items)) :: rat)
           > of_int (15 * strength (abilityScores c)) * (8 / 10)"
  shows "''Inventory is near maximum carrying capacity''
           \<in> set (warnings (validateInventory c r))"
  using assms
  by (simp add: validateInventory_def Let_def warnings_checkDuplicates mem_warnings_warningIf)

lemma warnings_validateInventory_mono:
  "x \<in> set (warnings r) \<Longrightarrow> x \<in> set (warnings (validateInventory c r))"
  by (simp add: validateInventory_def Let_def warnings_checkDuplicates mem_warnings_warningIf
        warnings_errorIf split: option.splits)

lemma warnings_checkTrait_mono:
  "x \<in> set (warnings r) \<Longrightarrow> x \<in> set (warnings (checkTrait r e))"
  by (simp add: checkTrait_def Let_def mem_warnings_warningIf)

lemma warnings_foldl_checkTrait_mono:
  "x \<in> set (warnings r) \<Longrightarrow> x \<in> set (warnings (foldl checkTrait r es))"
  by (induction es arbitrary: r) (simp_all add: warnings_checkTrait_mono)

lemma warnings_validateBackstory_mono:
  "x \<in> set (warnings r) \<Longrightarrow> x \<in> set (warnings (validateBackstory c r))"
  by (auto simp: validateBackstory_def Let_def pushWarning_def mem_warnings_warningIf
        intro!: warnings_foldl_checkTrait_mono split: option.splits)

text \<open>
  Claim C9, as amended. Whenever validation returns a result: if the character has a
  skills map and the sum of the skill levels is more than 80 percent of the budget
  \<open>level * 2\<close>, the result holds the near-maximum warning; if the character has an
  inventory and its total weight is more than 80 percent of the capacity
  \<open>15 * strength\<close>, the result holds the near-capacity warning.
\<close>

theorem near_limit_warnings:
  assumes "validateCharacter env c = Inr r"
  shows "(skills c = Some sk \<longrightarrow>
            (of_int (sum_list (map snd sk)) :: rat) > of_int (level c * 2) * (8 / 10) \<longrightarrow>
            ''Skill points are near maximum allocation'' \<in> set (warnings r))
       \<and> (inventory c = Some items \<longrightarrow>
            (of_int (sum_list (map (\<lambda>item. case weight item of None \<Rightarrow> 0 | Some w \<Rightarrow> w)
                                 items)) :: rat)
              > of_int (15 * strength (abilityScores c)) * (8 / 10) \<longrightarrow>
            ''Inventory is near maximum carrying capacity'' \<in> set (warnings r))"
proof -
  from assms obtain r3 r9 where
    r9: "r9 = validateBackstory c
            (validateInventory c
               (validateSkills c (validateAlignment env c (validateArchetype env c r3))))"
    and r: "r = r9\<lparr>isValid := (length (errors r9) = 0)\<rparr>"
    by (rule validateCharacter_returns)
  have w: "warnings r = warnings r9" by (simp add: r)
  show ?thesis
    by (simp add: w r9 skills_near_maximum inventory_near_capacity
          warnings_validateInventory_mono warnings_validateBackstory_mono)
qed

lemma overEighty_validation:
  "validateCharacter sampleCollaborators overEighty =
     Inr \<lparr>isValid = True, errors = [],
          warnings = [''No archetype selected for Fighter'',
                      ''Skill points are near maximum allocation'',
                      ''Inventory is near maximum carrying capacity'']\<rparr>"
  by code_simp

text \<open>Nine skill points of ten and a load of 181 of 225 bring both warnings.\<close>

theorem near_limit_warnings_witness:
  "skills overEighty = Some [(''athletics'', 5), (''perception'', 4)]
   \<and> inventory overEighty = Some [\<lparr>itemId = ''i-2'', itemName = ''Anvil'', weight = Some 181\<rparr>]
   \<and> (9 :: rat) > of_int (level overEighty * 2) * (8 / 10)
   \<and> (181 :: rat) > of_int (15 * strength (abilityScores overEighty)) * (8 / 10)
   \<and> ''Skill points are near maximum allocation''
       \<in> set [''No archetype selected for Fighter'',
               ''Skill points are near maximum allocation'',
               ''Inventory is near maximum carrying capacity'']
   \<and> ''Inventory is near maximum carrying capacity''
       \<in> set [''No archetype selected for Fighter'',
               ''Skill points are near maximum allocation'',
               ''Inventory is near maximum carrying capacity'']"
proof -
  have s: "skills overEighty = Some [(''athletics'', 5), (''perception'', 4)]"
    and i: "inventory overEighty
              = Some [\<lparr>itemId = ''i-2'', itemName = ''Anvil'', weight = Some 181\<rparr>]"
    and l: "level overEighty = 5" and st: "strength (abilityScores overEighty) = 15"
    by (simp_all add: overEighty_def sampleFighter_def)
  from near_limit_warnings [OF overEighty_validation,
      of "[(''athletics'', 5), (''perception'', 4)]"
         "[\<lparr>itemId = ''i-2'', itemName = ''Anvil'', weight = Some 181\<rparr>]"]
  show ?thesis by (simp add: s i l st)
qed

text \<open>
  At exactly 80 percent, eight skill points of ten and a load of 180 of 225, neither
  warning is given: the comparisons are strict.
\<close>

theorem exactly_eighty_counterexample:
  "skills exactlyEighty = Some [(''athletics'', 5), (''perception'', 3)]
   \<and> (of_int (5 + 3) :: rat) \<ge> of_int (level exactlyEighty * 2) * (8 / 10)
   \<and> inventory exactlyEighty
       = Some [\<lparr>itemId = ''i-2'', itemName = ''Anvil'', weight = Some 180\<rparr>]
   \<and> (of_int 180 :: rat) \<ge> of_int (15 * strength (abilityScores exactlyEighty)) * (8 / 10)
   \<and> validateCharacter sampleCollaborators exactlyEighty =
       Inr \<lparr>isValid = True, errors = [],
            warnings = [''No archetype selected for Fighter'']\<rparr>"
  by code_simp

section \<open>Export and import\<close>

lemma validateCharacter_isValid:
  "validateCharacter env c = Inr vr \<Longrightarrow> isValid vr = (errors vr = [])"
  by (auto simp: validateCharacter_def Let_def split: sum.splits)

text \<open>
  Claim C10. Export is gated on validity. When validation returns a result with errors,
  \<open>exportCharacter\<close> returns \<open>success = False\<close> with exactly those errors and no data;
  it returns data only when validation returns an empty error list; and when validation
  throws, the export throws the same error and returns nothing.
\<close>

theorem exportCharacter_gated:
  "(case validateCharacter env c of
      Inl e \<Rightarrow> exportCharacter env uuid now now' c = Inl e
    | Inr vr \<Rightarrow>
        if errors vr = []
        then exportCharacter env uuid now now' c =
               Inr \<lparr>success = True,
                    payload =
                      Some \<lparr>version = ''1.1.0'', exportId = uuid, timestamp = now,
                            character = sanitizeCharacterData now' c,
                            metadata =
                              \<lparr>validationResult =
                                 \<lparr>isValid = True, errors = [], warnings = warnings vr\<rparr>,
                               exportVersion = ''1.1.0''\<rparr>\<rparr>,
                    resultErrors = None\<rparr>
        else exportCharacter env uuid now now' c =
               Inr \<lparr>success = False, payload = None, resultErrors = Some (errors vr)\<rparr>)"
  by (auto simp: exportCharacter_def Let_def dest: validateCharacter_isValid split: sum.splits)

lemma forEachMulticlass_ignores:
  "forEachMulticlass (c\<lparr>charId := i, status := s, campaignId := g, exportedAt := x\<rparr>) mcs r =
   forEachMulticlass c mcs r"
  by (cases mcs) (simp_all add: MulticlassSystem_validateMulticlassing_def)

lemma checkRequirement_ignores:
  "checkRequirement (c\<lparr>charId := i, status := s, campaignId := g, exportedAt := x\<rparr>) =
   checkRequirement c"
  by (rule ext)+ (simp add: checkRequirement_def Let_def cong: option.case_cong)

lemma validateCharacter_ignores:
  assumes "\<And>f. validateArchetypeSelection env
                  (c\<lparr>charId := i, status := s, campaignId := g, exportedAt := x\<rparr>) f =
                validateArchetypeSelection env c f"
  shows "validateCharacter env (c\<lparr>charId := i, status := s, campaignId := g, exportedAt := x\<rparr>) =
         validateCharacter env c"
proof -
  let ?c = "c\<lparr>charId := i, status := s, campaignId := g, exportedAt := x\<rparr>"
  have 1: "validateBasicInfo ?c = validateBasicInfo c"
    by (rule ext) (simp add: validateBasicInfo_def Let_def cong: option.case_cong)
  have 2: "validateAbilityScores ?c = validateAbilityScores c"
    by (rule ext) (simp add: validateAbilityScores_def Let_def cong: option.case_cong)
  have 3: "validateClassRequirements ?c = validateClassRequirements c"
    by (rule ext) (simp add: validateClassRequirements_def checkRequirement_ignores cong: option.case_cong)
  have 4: "validateMulticlassing ?c = validateMulticlassing c"
    by (rule ext) (simp add: validateMulticlassing_def forEachMulticlass_ignores
          cong: option.case_cong sum.case_cong if_cong)
  have 5: "validateArchetype env ?c = validateArchetype env c"
    by (rule ext) (simp add: validateArchetype_def Let_def assms cong: option.case_cong)
  have 6: "validateAlignment env ?c = validateAlignment env c"
    by (rule ext) (simp add: validateAlignment_def Let_def cong: option.case_cong)
  have 7: "validateSkills ?c = validateSkills c"
    by (rule ext) (simp add: validateSkills_def Let_def cong: option.case_cong)
  have 8: "validateInventory ?c = validateInventory c"
    by (rule ext) (simp add: validateInventory_def Let_def cong: option.case_cong)
  have 9: "validateBackstory ?c = validateBackstory c"
    by (rule ext) (simp add: validateBackstory_def Let_def cong: option.case_cong)
  show ?thesis
    unfolding validateCharacter_def 1 2 3 4 5 6 7 8 9 ..
qed

lemma imported_form:
  "(sanitizeCharacterData t' c)\<lparr>charId := Some u\<rparr> =
   c\<lparr>charId := Some u, status := None, campaignId := None, exportedAt := Some t'\<rparr>"
  by (cases c) (simp add: sanitizeCharacterData_def)

lemma MAX_EXPORT_AGE_value: "MAX_EXPORT_AGE = 365 * 24 * 3600 * 1000"
  by (simp add: MAX_EXPORT_AGE_def)

text \<open>
  Claim C2, as amended. Let validation accept a character (it returns no errors), and let
  the archetype collaborator not look at the id, the status, the campaign or the export
  stamp. Then the export succeeds, and importing its envelope with the version untouched
  and a time stamp at most \<open>365 * 24 * 3600 * 1000\<close> ms old succeeds and yields the
  original character with a fresh id, without status and campaign, and with the export
  stamp added. Every envelope with another version fails with the version error, and every
  envelope older than the limit fails, with the version error if the version differs and
  with the age error otherwise.
\<close>

theorem export_import_round_trip:
  assumes "validateCharacter env c = Inr vr" and "errors vr = []"
    and "\<And>f. validateArchetypeSelection env
                 (c\<lparr>charId := Some uuid', status := None, campaignId := None,
                    exportedAt := Some t'\<rparr>) f =
               validateArchetypeSelection env c f"
  shows "exportCharacter env uuid t t' c =
           Inr \<lparr>success = True,
                payload =
                  Some \<lparr>version = ''1.1.0'', exportId = uuid, timestamp = t,
                        character = sanitizeCharacterData t' c,
                        metadata =
                          \<lparr>validationResult =
                             \<lparr>isValid = True, errors = [], warnings = warnings vr\<rparr>,
                           exportVersion = ''1.1.0''\<rparr>\<rparr>,
                resultErrors = None\<rparr>
         \<and> (now - ts \<le> 365 * 24 * 3600 * 1000 \<longrightarrow>
              importCharacter env uuid' now
                \<lparr>version = ''1.1.0'', exportId = uuid, timestamp = ts,
                 character = sanitizeCharacterData t' c,
                 metadata =
                   \<lparr>validationResult =
                      \<lparr>isValid = True, errors = [], warnings = warnings vr\<rparr>,
                    exportVersion = ''1.1.0''\<rparr>\<rparr> =
                Inr \<lparr>success = True,
                     payload =
                       Some (c\<lparr>charId := Some uuid', status := None, campaignId := None,
                               exportedAt := Some t'\<rparr>),
                     resultErrors = None\<rparr>)
         \<and> (version e \<noteq> ''1.1.0'' \<longrightarrow>
              importCharacter env uuid' now e =
                Inr \<lparr>success = False, payload = None,
                     resultErrors = Some [''Incompatible export version'']\<rparr>)
         \<and> (now - timestamp e > 365 * 24 * 3600 * 1000 \<longrightarrow>
              importCharacter env uuid' now e =
                Inr \<lparr>success = False, payload = None,
                     resultErrors =
                       Some [if version e \<noteq> ''1.1.0'' then ''Incompatible export version''
                             else ''Export data is too old'']\<rparr>)"
proof -
  let ?c' = "c\<lparr>charId := Some uuid', status := None, campaignId := None, exportedAt := Some t'\<rparr>"
  have v: "isValid vr" using assms(1,2) by (simp add: validateCharacter_isValid)
  have v': "validateCharacter env ?c' = Inr vr"
    using validateCharacter_ignores [where env = env and c = c and i = "Some uuid'" and s = None
        and g = None and x = "Some t'"] assms(1,3)
    by simp
  have 1: "exportCharacter env uuid t t' c =
           Inr \<lparr>success = True,
                payload =
                  Some \<lparr>version = ''1.1.0'', exportId = uuid, timestamp = t,
                        character = sanitizeCharacterData t' c,
                        metadata =
                          \<lparr>validationResult =
                             \<lparr>isValid = True, errors = [], warnings = warnings vr\<rparr>,
                           exportVersion = ''1.1.0''\<rparr>\<rparr>,
                resultErrors = None\<rparr>"
    using assms(1,2) v by (simp add: exportCharacter_def Let_def)
  have 2: "now - ts \<le> 365 * 24 * 3600 * 1000 \<longrightarrow>
              importCharacter env uuid' now
                \<lparr>version = ''1.1.0'', exportId = uuid, timestamp = ts,
                 character = sanitizeCharacterData t' c,
                 metadata =
                   \<lparr>validationResult =
                      \<lparr>isValid = True, errors = [], warnings = warnings vr\<rparr>,
                    exportVersion = ''1.1.0''\<rparr>\<rparr> =
                Inr \<lparr>success = True, payload = Some ?c', resultErrors = None\<rparr>"
    using v v' by (simp add: importCharacter_def Let_def imported_form MAX_EXPORT_AGE_def)
  have 3: "version e \<noteq> ''1.1.0'' \<longrightarrow>
           importCharacter env uuid' now e =
             Inr \<lparr>success = False, payload = None,
                  resultErrors = Some [''Incompatible export version'']\<rparr>"
    by (simp add: importCharacter_def)
  have 4: "now - timestamp e > 365 * 24 * 3600 * 1000 \<longrightarrow>
           importCharacter env uuid' now e =
             Inr \<lparr>success = False, payload = None,
                  resultErrors =
                    Some [if version e \<noteq> ''1.1.0'' then ''Incompatible export version''
                          else ''Export data is too old'']\<rparr>"
    by (simp add: importCharacter_def MAX_EXPORT_AGE_def)
  from 1 2 3 4 show ?thesis by blast
qed

lemma sampleFighter_validation:
  "validateCharacter sampleCollaborators sampleFighter =
     Inr \<lparr>isValid = True, errors = [], warnings = [''No archetype selected for Fighter'']\<rparr>"
  by code_simp

text \<open>
  The sample fighter is accepted; its export is imported one second later, a version 1.0.0
  envelope is refused, and so is one imported after more than a year.
\<close>

theorem export_import_round_trip_witness:
  "validateCharacter sampleCollaborators sampleFighter =
     Inr \<lparr>isValid = True, errors = [], warnings = [''No archetype selected for Fighter'']\<rparr>
   \<and> (2000 :: int) - 1000 \<le> 365 * 24 * 3600 * 1000
   \<and> importCharacter sampleCollaborators ''c-2'' 2000
        \<lparr>version = ''1.1.0'', exportId = ''e-1'', timestamp = 1000,
         character = sanitizeCharacterData 1001 sampleFighter,
         metadata =
           \<lparr>validationResult =
              \<lparr>isValid = True, errors = [],
               warnings = [''No archetype selected for Fighter'']\<rparr>,
            exportVersion = ''1.1.0''\<rparr>\<rparr> =
       Inr \<lparr>success = True,
            payload =
              Some (sampleFighter\<lparr>charId := Some ''c-2'', status := None, campaignId := None,
                                  exportedAt := Some 1001\<rparr>),
            resultErrors = None\<rparr>
   \<and> importCharacter sampleCollaborators ''c-2'' 2000
        \<lparr>version = ''1.0.0'', exportId = ''e-1'', timestamp = 1000,
         character = sampleFighter,
         metadata =
           \<lparr>validationResult = \<lparr>isValid = True, errors = [], warnings = []\<rparr>,
            exportVersion = ''1.0.0''\<rparr>\<rparr> =
       Inr \<lparr>success = False, payload = None,
            resultErrors = Some [''Incompatible export version'']\<rparr>
   \<and> importCharacter sampleCollaborators ''c-2'' 40000000000
        \<lparr>version = ''1.1.0'', exportId = ''e-1'', timestamp = 1000,
         character = sampleFighter,
         metadata =
           \<lparr>validationResult = \<lparr>isValid = True, errors = [], warnings = []\<rparr>,
            exportVersion = ''1.1.0''\<rparr>\<rparr> =
       Inr \<lparr>success = False, payload = None,
            resultErrors = Some [''Export data is too old'']\<rparr>"
proof -
  have e: "errors \<lparr>isValid = True, errors = [],
                   warnings = [''No archetype selected for Fighter'']\<rparr> = []"
    by simp
  have a: "\<And>f. validateArchetypeSelection sampleCollaborators
                 (sampleFighter\<lparr>charId := Some ''c-2'', status := None, campaignId := None,
                    exportedAt := Some 1001\<rparr>) f =
               validateArchetypeSelection sampleCollaborators sampleFighter f"
    by (simp add: sampleCollaborators_def)
  have old: "version \<lparr>version = ''1.0.0'', exportId = ''e-1'', timestamp = 1000,
         character = sampleFighter,
         metadata =
           \<lparr>validationResult = \<lparr>isValid = True, errors = [], warnings = []\<rparr>,
            exportVersion = ''1.0.0''\<rparr>\<rparr> \<noteq> ''1.1.0''"
    by simp
  from export_import_round_trip [OF sampleFighter_validation e a,
      where now = 2000 and ts = 1000 and uuid = "''e-1''" and t = 1000
        and e = "\<lparr>version = ''1.0.0'', exportId = ''e-1'', timestamp = 1000,
         character = sampleFighter,
         metadata =
           \<lparr>validationResult = \<lparr>isValid = True, errors = [], warnings = []\<rparr>,
            exportVersion = ''1.0.0''\<rparr>\<rparr>"]
    export_import_round_trip [OF sampleFighter_validation e a,
      where now = 40000000000 and ts = 1000 and uuid = "''e-1''" and t = 1000
        and e = "\<lparr>version = ''1.1.0'', exportId = ''e-1'', timestamp = 1000,
         character = sampleFighter,
         metadata =
           \<lparr>validationResult = \<lparr>isValid = True, errors = [], warnings = []\<rparr>,
            exportVersion = ''1.1.0''\<rparr>\<rparr>"]
    sampleFighter_validation
  show ?thesis by simp
qed

text \<open>
  The claim as first stated fails: the character that comes back from the round trip
  differs from the original in more than the id. The fighter was active in a campaign; the
  imported fighter has no status and no campaign.
\<close>

theorem round_trip_counterexample:
  "exportCharacter sampleCollaborators ''e-1'' 1000 1001 sampleFighter =
     Inr \<lparr>success = True, payload = Some sampleExport, resultErrors = None\<rparr>
   \<and> importCharacter sampleCollaborators ''c-2'' 2000 sampleExport =
       Inr \<lparr>success = True,
            payload = Some ((sanitizeCharacterData 1001 sampleFighter)\<lparr>charId := Some ''c-2''\<rparr>),
            resultErrors = None\<rparr>
   \<and> status sampleFighter = Some Active
   \<and> status ((sanitizeCharacterData 1001 sampleFighter)\<lparr>charId := Some ''c-2''\<rparr>) = None
   \<and> (sanitizeCharacterData 1001 sampleFighter)\<lparr>charId := Some ''c-2''\<rparr>
       \<noteq> sampleFighter\<lparr>charId := Some ''c-2''\<rparr>"
  by code_simp

section \<open>Background updates\<close>

lemma find_findIndex:
  "find P cs = Some c \<Longrightarrow> \<exists>i. findIndex P cs = Some i \<and> i < length cs \<and> cs ! i = c"
proof (induction cs)
  case Nil
  then show ?case by simp
next
  case (Cons x cs)
  show ?case
  proof (cases "P x")
    case True
    with Cons.prems show ?thesis by simp
  next
    case False
    with Cons.prems have "find P cs = Some c" by simp
    then obtain i where "findIndex P cs = Some i" "i < length cs" "cs ! i = c"
      using Cons.IH by blast
    with False have "findIndex P (x # cs) = Some (Suc i) \<and> Suc i < length (x # cs)
        \<and> (x # cs) ! Suc i = c" by simp
    then show ?thesis by blast
  qed
qed

lemma find_replaced:
  "findIndex P cs = Some i \<Longrightarrow> P c' \<Longrightarrow> find P (cs[i := c']) = Some c'"
proof (induction cs arbitrary: i)
  case Nil
  then show ?case by simp
next
  case (Cons x cs)
  show ?case
  proof (cases "P x")
    case True
    with Cons.prems show ?thesis by simp
  next
    case False
    with Cons.prems obtain j where j: "findIndex P cs = Some j" "i = Suc j" by auto
    with Cons.IH Cons.prems(2) have "find P (cs[j := c']) = Some c'" by blast
    with False j show ?thesis by simp
  qed
qed

lemma find_other:
  "findIndex P cs = Some i \<Longrightarrow> \<not> Q (cs ! i) \<Longrightarrow> \<not> Q c' \<Longrightarrow>
   find Q (cs[i := c']) = find Q cs"
proof (induction cs arbitrary: i)
  case Nil
  then show ?case by simp
next
  case (Cons x cs)
  show ?case
  proof (cases "P x")
    case True
    with Cons.prems show ?thesis by simp
  next
    case False
    with Cons.prems obtain j where j: "findIndex P cs = Some j" "i = Suc j" by auto
    with Cons.prems have "\<not> Q (cs ! j)" by simp
    with Cons.IH j Cons.prems(3) have "find Q (cs[j := c']) = find Q cs" by blast
    with j show ?thesis by simp
  qed
qed

lemma find_holds: "find P cs = Some c \<Longrightarrow> P c"
  by (induction cs) (simp_all split: if_splits)

lemma getCharacterById_id:
  assumes "getCharacterById st cid = Some c"
  shows "charId c = Some cid"
proof -
  from assms have "find (\<lambda>x. charId x = Some cid) (getAllCharacters st) = Some c"
    by (simp add: getCharacterById_def)
  then show ?thesis by (rule find_holds)
qed

lemma saveCharacter_stored:
  assumes "getCharacterById st cid = Some c" and "charId c' = Some cid"
  shows "getCharacterById (saveCharacter st c') cid = Some c'
       \<and> (other \<noteq> cid \<longrightarrow>
            getCharacterById (saveCharacter st c') other = getCharacterById st other)
       \<and> length (getAllCharacters (saveCharacter st c')) = length (getAllCharacters st)"
proof -
  let ?cs = "getAllCharacters st"
  let ?P = "\<lambda>x. charId x = Some cid"
  from assms(1) have f: "find ?P ?cs = Some c" by (simp add: getCharacterById_def)
  from find_findIndex [OF f]
  obtain i where i: "findIndex ?P ?cs = Some i" "i < length ?cs" "?cs ! i = c"
    by blast
  have s: "saveCharacter st c' = Some (?cs[i := c'])"
    using i(1) assms(2) by (simp add: saveCharacter_def Let_def)
  have "find ?P (?cs[i := c']) = Some c'"
    using i(1) assms(2) by (rule find_replaced)
  then have 1: "getCharacterById (saveCharacter st c') cid = Some c'"
    by (simp add: s getCharacterById_def getAllCharacters_def)
  have c: "charId c = Some cid" using assms(1) by (rule getCharacterById_id)
  have 2: "other \<noteq> cid \<longrightarrow>
            getCharacterById (saveCharacter st c') other = getCharacterById st other"
  proof
    assume o: "other \<noteq> cid"
    have "find (\<lambda>x. charId x = Some other) (?cs[i := c']) = find (\<lambda>x. charId x = Some other) ?cs"
      using i(1) by (rule find_other) (simp_all add: i(3) c assms(2) o [symmetric])
    then show "getCharacterById (saveCharacter st c') other = getCharacterById st other"
      by (simp add: s getCharacterById_def getAllCharacters_def)
  qed
  have 3: "length (getAllCharacters (saveCharacter st c')) = length ?cs"
    by (simp add: s getAllCharacters_def)
  from 1 2 3 show ?thesis by blast
qed

lemma updateCharacterBackground_found:
  assumes "getCharacterById st cid = Some c" and "traits c = Some t"
  shows "updateCharacterBackground st cid d =
           Inr (c\<lparr>backstory :=
                     (case newBackstory d of
                        None \<Rightarrow> backstory c
                      | Some b \<Rightarrow> if b = [] then backstory c else Some b),
                   traits :=
                     Some \<lparr>personality =
                             (case newPersonality d of None \<Rightarrow> personality t | Some p \<Rightarrow> p),
                           ideals = (case newIdeals d of None \<Rightarrow> ideals t | Some i \<Rightarrow> i),
                           bonds = (case newBonds d of None \<Rightarrow> bonds t | Some b \<Rightarrow> b),
                           flaws = (case newFlaws d of None \<Rightarrow> flaws t | Some f \<Rightarrow> f)\<rparr>\<rparr>,
                saveCharacter st
                  (c\<lparr>backstory :=
                     (case newBackstory d of
                        None \<Rightarrow> backstory c
                      | Some b \<Rightarrow> if b = [] then backstory c else Some b),
                   traits :=
                     Some \<lparr>personality =
                             (case newPersonality d of None \<Rightarrow> personality t | Some p \<Rightarrow> p),
                           ideals = (case newIdeals d of None \<Rightarrow> ideals t | Some i \<Rightarrow> i),
                           bonds = (case newBonds d of None \<Rightarrow> bonds t | Some b \<Rightarrow> b),
                           flaws = (case newFlaws d of None \<Rightarrow> flaws t | Some f \<Rightarrow> f)\<rparr>\<rparr>))"
  using assms
  by (simp add: updateCharacterBackground_def Let_def suppliedOrStored_def
        split: option.splits)

text \<open>
  A stored character without traits makes the update throw as soon as one trait list is
  not supplied; the statement below is about characters that have traits.
\<close>

lemma updateCharacterBackground_without_traits:
  "getCharacterById st cid = Some c \<Longrightarrow> traits c = None \<Longrightarrow> newPersonality d = None \<Longrightarrow>
   updateCharacterBackground st cid d =
     Inl (TypeError
            (''Cannot read properties of undefined (reading '' @ [CHR 0x27] @ ''personality''
             @ [CHR 0x27] @ '')''))"
  by (simp add: updateCharacterBackground_def Let_def suppliedOrStored_def)

text \<open>
  Claim C8, as amended. When no character is stored under the id, the update fails with
  the not-found error. When a character with traits is stored under the id, the update
  replaces the backstory if a non-empty backstory is supplied and each trait list that is
  supplied, leaves the unsupplied ones and every other field as they were, stores the
  character under its id, leaves the characters under other ids alone and returns the
  character. A supplied empty backstory counts as not supplied.
\<close>

theorem updateCharacterBackground_spec:
  "(getCharacterById st cid = None \<longrightarrow>
      updateCharacterBackground st cid d = Inl (Error ''Character not found''))
   \<and> (getCharacterById st cid = Some c \<and> traits c = Some t \<longrightarrow>
        (\<exists>c'. c' = c\<lparr>backstory :=
                        (case newBackstory d of
                           None \<Rightarrow> backstory c
                         | Some b \<Rightarrow> if b = [] then backstory c else Some b),
                      traits :=
                        Some \<lparr>personality =
                                (case newPersonality d of None \<Rightarrow> personality t | Some p \<Rightarrow> p),
                              ideals = (case newIdeals d of None \<Rightarrow> ideals t | Some i \<Rightarrow> i),
                              bonds = (case newBonds d of None \<Rightarrow> bonds t | Some b \<Rightarrow> b),
                              flaws = (case newFlaws d of None \<Rightarrow> flaws t | Some f \<Rightarrow> f)\<rparr>\<rparr>
            \<and> updateCharacterBackground st cid d = Inr (c', saveCharacter st c')
            \<and> getCharacterById (saveCharacter st c') cid = Some c'
            \<and> (other \<noteq> cid \<longrightarrow>
                 getCharacterById (saveCharacter st c') other = getCharacterById st other)))"
proof (intro conjI impI)
  assume "getCharacterById st cid = None"
  then show "updateCharacterBackground st cid d = Inl (Error ''Character not found'')"
    by (simp add: updateCharacterBackground_def)
next
  assume a: "getCharacterById st cid = Some c \<and> traits c = Some t"
  then have g: "getCharacterById st cid = Some c" and t: "traits c = Some t" by simp_all
  let ?c' = "c\<lparr>backstory :=
                        (case newBackstory d of
                           None \<Rightarrow> backstory c
                         | Some b \<Rightarrow> if b = [] then backstory c else Some b),
                      traits :=
                        Some \<lparr>personality =
                                (case newPersonality d of None \<Rightarrow> personality t | Some p \<Rightarrow> p),
                              ideals = (case newIdeals d of None \<Rightarrow> ideals t | Some i \<Rightarrow> i),
                              bonds = (case newBonds d of None \<Rightarrow> bonds t | Some b \<Rightarrow> b),
                              flaws = (case newFlaws d of None \<Rightarrow> flaws t | Some f \<Rightarrow> f)\<rparr>\<rparr>"
  have u: "updateCharacterBackground st cid d = Inr (?c', saveCharacter st ?c')"
    using g t by (rule updateCharacterBackground_found)
  have "charId ?c' = Some cid" using g by (simp add: getCharacterById_id)
  with g have "getCharacterById (saveCharacter st ?c') cid = Some ?c'
       \<and> (other \<noteq> cid \<longrightarrow>
            getCharacterById (saveCharacter st ?c') other = getCharacterById st other)"
    using saveCharacter_stored [of st cid c ?c' other] by simp
  with u show "\<exists>c'. c' = ?c'
            \<and> updateCharacterBackground st cid d = Inr (c', saveCharacter st c')
            \<and> getCharacterById (saveCharacter st c') cid = Some c'
            \<and> (other \<noteq> cid \<longrightarrow>
                 getCharacterById (saveCharacter st c') other = getCharacterById st other)"
    by simp
qed

lemma sampleStore_lookup:
  "getCharacterById sampleStore ''c-9'' = None"
  "getCharacterById sampleStore ''c-1'' = Some sampleFighter"
  "traits sampleFighter =
     Some \<lparr>personality = [''Brave''], ideals = [''Honour''], bonds = [''Family''],
           flaws = [''Stubborn'']\<rparr>"
  "backstory sampleFighter = Some ''Raised in the hills''"
  by (simp_all add: getCharacterById_def getAllCharacters_def sampleStore_def sampleFighter_def)

text \<open>
  No character is stored under \<open>c-9\<close>; the fighter is stored under \<open>c-1\<close> and gets the new
  backstory and ideals.
\<close>

theorem updateCharacterBackground_spec_witness:
  "getCharacterById sampleStore ''c-9'' = None
   \<and> updateCharacterBackground sampleStore ''c-9'' samplePatch = Inl (Error ''Character not found'')
   \<and> getCharacterById sampleStore ''c-1'' = Some sampleFighter
   \<and> updateCharacterBackground sampleStore ''c-1'' samplePatch =
       Inr (sampleFighter
              \<lparr>backstory := Some ''A new tale'',
               traits := Some \<lparr>personality = [''Brave''], ideals = [''Glory''],
                               bonds = [''Family''], flaws = [''Stubborn'']\<rparr>\<rparr>,
            saveCharacter sampleStore
              (sampleFighter
                 \<lparr>backstory := Some ''A new tale'',
                  traits := Some \<lparr>personality = [''Brave''], ideals = [''Glory''],
                                  bonds = [''Family''], flaws = [''Stubborn'']\<rparr>\<rparr>))
   \<and> getCharacterById
         (saveCharacter sampleStore
            (sampleFighter
               \<lparr>backstory := Some ''A new tale'',
                traits := Some \<lparr>personality = [''Brave''], ideals = [''Glory''],
                                bonds = [''Family''], flaws = [''Stubborn'']\<rparr>\<rparr>)) ''c-1'' =
       Some (sampleFighter
               \<lparr>backstory := Some ''A new tale'',
                traits := Some \<lparr>personality = [''Brave''], ideals = [''Glory''],
                                bonds = [''Family''], flaws = [''Stubborn'']\<rparr>\<rparr>)"
  using
    updateCharacterBackground_spec [of sampleStore "''c-9''" samplePatch]
    updateCharacterBackground_spec [of sampleStore "''c-1''" samplePatch sampleFighter
      "\<lparr>personality = [''Brave''], ideals = [''Honour''], bonds = [''Family''],
        flaws = [''Stubborn'']\<rparr>"]
  by (simp add: sampleStore_lookup samplePatch_def)

text \<open>
  The claim as first stated fails: an update that supplies the empty backstory leaves the
  stored backstory in place.
\<close>

theorem empty_backstory_counterexample:
  "getCharacterById sampleStore ''c-1'' = Some sampleFighter
   \<and> backstory sampleFighter = Some ''Raised in the hills''
   \<and> updateCharacterBackground sampleStore ''c-1''
        \<lparr>newBackstory = Some [], newPersonality = None, newIdeals = None, newBonds = None,
         newFlaws = None\<rparr> =
       Inr (sampleFighter, sampleStore)"
  by code_simp

end
